theory Spec2Isabelle
  imports Main "HOL-Library.Multiset" "HOL-Library.AList"
begin

section \<open>Python values and exceptions\<close>

text \<open>
  Exceptions of the program are values. \<open>ValueError\<close> and \<open>RuntimeError\<close> carry their
  message; \<open>RequestException\<close> stands for a transport fault of \<^verbatim>\<open>requests.get\<close>.
\<close>

datatype py_exception =
    AttributeError
  | IndexError
  | KeyError
  | TypeError
  | RequestException
  | ValueError string
  | RuntimeError string

text \<open>The values stored in \<^verbatim>\<open>data_dict: dict[str, Any]\<close>: strings and integers.\<close>

datatype pyval = PyStr string | PyInt int

section \<open>The time model\<close>

text \<open>
  \<^verbatim>\<open>datetime.strptime(s, "%H:%M:%S")\<close> yields a naive datetime on 1900-01-01 with
  microsecond 0, so a timestamp is its time of day. Python's constructor admits only
  the fields that \<open>valid_datetime\<close> describes.
\<close>

record datetime =
  hour :: int
  minute :: int
  second :: int

definition valid_datetime :: "datetime \<Rightarrow> bool" where
  "valid_datetime d \<longleftrightarrow>
     0 \<le> hour d \<and> hour d < 24 \<and> 0 \<le> minute d \<and> minute d < 60 \<and> 0 \<le> second d \<and> second d < 60"

text \<open>Comparison of datetimes is the lexicographic comparison of their fields.\<close>

definition datetime_less :: "datetime \<Rightarrow> datetime \<Rightarrow> bool" where
  "datetime_less a b \<longleftrightarrow>
     hour a < hour b \<or> (hour a = hour b \<and>
       (minute a < minute b \<or> (minute a = minute b \<and> second a < second b)))"

definition datetime_le :: "datetime \<Rightarrow> datetime \<Rightarrow> bool" where
  "datetime_le a b \<longleftrightarrow> datetime_less a b \<or> a = b"

record timedelta =
  days :: int
  seconds :: int

text \<open>
  \<^verbatim>\<open>timedelta(days, seconds)\<close> normalises its arguments:
  \<^verbatim>\<open>days, seconds = divmod(seconds, 24*3600)\<close>, the quotient carried into the days.
\<close>

definition timedelta_new :: "int \<Rightarrow> int \<Rightarrow> timedelta" where
  "timedelta_new d s = \<lparr>days = d + s div (24 * 3600), seconds = s mod (24 * 3600)\<rparr>"

text \<open>
  \<^verbatim>\<open>datetime.__sub__\<close>: the second counts of both operands are
  \<^verbatim>\<open>second + minute * 60 + hour * 3600\<close>; the difference of the day ordinals is 0,
  both dates being 1900-01-01, and so is the difference of the microseconds. The
  subtraction is exact for whole-second times of day, which is what the default format
  \<^verbatim>\<open>%H:%M:%S\<close> yields. Timestamps with a date or a fraction of a second, which only
  another \<^verbatim>\<open>time_format\<close> can produce, are outside the model: the record cannot hold
  them, and the claims about durations are stated for whole-second times of day.
\<close>

definition secs :: "datetime \<Rightarrow> int" where
  "secs d = second d + minute d * 60 + hour d * 3600"

definition datetime_sub :: "datetime \<Rightarrow> datetime \<Rightarrow> timedelta" where
  "datetime_sub a b = timedelta_new 0 (secs a - secs b)"

record Person =
  name :: string
  first_name :: string
  race_number :: pyval
  start :: datetime
  pitstop_1 :: datetime
  pitstop_2 :: datetime
  pitstop_3 :: datetime
  finish :: datetime

text \<open>\<^verbatim>\<open>Person.get_leg_time\<close>: the \<^verbatim>\<open>match\<close> on the leg number, in the source's order.\<close>

definition get_leg_time :: "Person \<Rightarrow> int \<Rightarrow> py_exception + int" where
  "get_leg_time self leg_no =
     (if leg_no = 1 then Inr (seconds (datetime_sub (pitstop_1 self) (start self)))
      else if leg_no = 2 then Inr (seconds (datetime_sub (pitstop_2 self) (pitstop_1 self)))
      else if leg_no = 3 then Inr (seconds (datetime_sub (pitstop_3 self) (pitstop_2 self)))
      else if leg_no = 4 then Inr (seconds (datetime_sub (finish self) (pitstop_3 self)))
      else Inl (ValueError ''leg_no out of bounds 1->4 inclusive.''))"

text \<open>\<^verbatim>\<open>Person.total_time\<close>\<close>

definition total_time :: "Person \<Rightarrow> int" where
  "total_time self = seconds (datetime_sub (finish self) (start self))"

text \<open>Sequencing of computations that may raise: the first exception ends the chain.\<close>

definition bind_exc :: "py_exception + 'a \<Rightarrow> ('a \<Rightarrow> py_exception + 'b) \<Rightarrow> py_exception + 'b" where
  "bind_exc x f = (case x of Inl e \<Rightarrow> Inl e | Inr v \<Rightarrow> f v)"

section \<open>Formatting integers\<close>

definition digit_char :: "nat \<Rightarrow> char" where
  "digit_char n = ''0123456789'' ! n"

fun digits :: "nat \<Rightarrow> string" where
  "digits n = (if n < 10 then [digit_char n] else digits (n div 10) @ [digit_char (n mod 10)])"

declare digits.simps [simp del]

text \<open>\<^verbatim>\<open>str(i)\<close> of an integer, which is also the format \<^verbatim>\<open>{:d}\<close>.\<close>

definition str_int :: "int \<Rightarrow> string" where
  "str_int i = (if i < 0 then CHR ''-'' # digits (nat (- i)) else digits (nat i))"

definition rjust :: "nat \<Rightarrow> char \<Rightarrow> string \<Rightarrow> string" where
  "rjust w c s = replicate (w - length s) c @ s"

definition format_d :: "int \<Rightarrow> string" where
  "format_d i = str_int i"

text \<open>\<^verbatim>\<open>{:2d}\<close>: minimum width 2, filled with spaces on the left.\<close>

definition format_2d :: "int \<Rightarrow> string" where
  "format_2d i = rjust 2 CHR '' '' (str_int i)"

text \<open>\<^verbatim>\<open>{:02d}\<close>: minimum width 2, zeros between the sign and the digits.\<close>

definition format_02d :: "int \<Rightarrow> string" where
  "format_02d i =
     (if i < 0 then CHR ''-'' # rjust 1 CHR ''0'' (digits (nat (- i)))
      else rjust 2 CHR ''0'' (digits (nat i)))"

text \<open>\<^verbatim>\<open>seconds_to_human_time\<close>; \<open>div\<close> and \<open>mod\<close> on \<open>int\<close> round as Python's
  \<^verbatim>\<open>//\<close> and \<^verbatim>\<open>%\<close> do.\<close>

definition seconds_to_human_time :: "int \<Rightarrow> string" where
  "seconds_to_human_time n =
     (let hours = n div 3600;
          minutes = (n mod 3600) div 60;
          s = n mod 60
      in if hours \<noteq> 0 then format_d hours @ '':'' @ format_02d minutes @ '':'' @ format_02d s
         else if minutes \<noteq> 0 then format_2d minutes @ '':'' @ format_02d s
         else format_2d s @ ''s'')"

section \<open>Constructing a Person\<close>

text \<open>\<^verbatim>\<open>str.split(" ")\<close>: the pieces between single spaces; never an empty list.\<close>

fun split_space :: "string \<Rightarrow> string list" where
  "split_space [] = [[]]"
| "split_space (c # cs) =
     (if c = CHR '' '' then [] # split_space cs
      else (case split_space cs of [] \<Rightarrow> [[c]] | w # ws \<Rightarrow> (c # w) # ws))"

text \<open>
  \<^verbatim>\<open>datetime.strptime\<close> is a parameter of the model: a function from the string and
  the format to a datetime or an exception. Its results are whole-second times of day,
  as the record \<open>datetime\<close> holds them. Called on a value that is not a string it raises
  \<open>TypeError\<close>.
\<close>

type_synonym strptime_fn = "string \<Rightarrow> string \<Rightarrow> py_exception + datetime"

definition strptime_val :: "strptime_fn \<Rightarrow> pyval \<Rightarrow> pyval \<Rightarrow> py_exception + datetime" where
  "strptime_val strptime v fmt =
     (case v of PyInt _ \<Rightarrow> Inl TypeError
      | PyStr s \<Rightarrow> (case fmt of PyInt _ \<Rightarrow> Inl TypeError | PyStr f \<Rightarrow> strptime s f))"

text \<open>The body of \<^verbatim>\<open>Person.__init__\<close>, its assignments in the source's order.\<close>

definition Person_init ::
  "strptime_fn \<Rightarrow> pyval \<Rightarrow> pyval \<Rightarrow> pyval \<Rightarrow> pyval \<Rightarrow> pyval \<Rightarrow> pyval \<Rightarrow> pyval \<Rightarrow> pyval
     \<Rightarrow> py_exception + Person" where
  "Person_init strptime nm rn st p1 p2 p3 fi time_format =
     (case nm of PyInt _ \<Rightarrow> Inl AttributeError
      | PyStr full \<Rightarrow>
         (case split_space full of [] \<Rightarrow> Inl IndexError
          | fst_name # _ \<Rightarrow>
             bind_exc (strptime_val strptime st time_format) (\<lambda>t0.
             bind_exc (strptime_val strptime p1 time_format) (\<lambda>t1.
             bind_exc (strptime_val strptime p2 time_format) (\<lambda>t2.
             bind_exc (strptime_val strptime p3 time_format) (\<lambda>t3.
             bind_exc (strptime_val strptime fi time_format) (\<lambda>t4.
               Inr \<lparr>name = full, first_name = fst_name, race_number = rn, start = t0,
                    pitstop_1 = t1, pitstop_2 = t2, pitstop_3 = t3, finish = t4\<rparr>)))))))"

text \<open>
  \<^verbatim>\<open>Person(**data_dict)\<close>: the keys are bound to the parameters of
  \<^verbatim>\<open>__init__\<close>. A key that is no parameter, the key \<^verbatim>\<open>self\<close> (bound already)
  and a missing parameter without default raise \<open>TypeError\<close> before the body runs.
\<close>

definition Person_params :: "string list" where
  "Person_params = [''name'', ''race_number'', ''start'', ''pitstop_1'', ''pitstop_2'',
     ''pitstop_3'', ''finish'', ''time_format'']"

definition kwarg :: "(string \<times> pyval) list \<Rightarrow> string \<Rightarrow> py_exception + pyval" where
  "kwarg kwargs k = (case map_of kwargs k of None \<Rightarrow> Inl TypeError | Some v \<Rightarrow> Inr v)"

definition Person_call :: "strptime_fn \<Rightarrow> (string \<times> pyval) list \<Rightarrow> py_exception + Person" where
  "Person_call strptime kwargs =
     (if \<not> list_all (\<lambda>k. k \<in> set Person_params) (map fst kwargs) then Inl TypeError
      else
        bind_exc (kwarg kwargs ''name'') (\<lambda>nm.
        bind_exc (kwarg kwargs ''race_number'') (\<lambda>rn.
        bind_exc (kwarg kwargs ''start'') (\<lambda>st.
        bind_exc (kwarg kwargs ''pitstop_1'') (\<lambda>p1.
        bind_exc (kwarg kwargs ''pitstop_2'') (\<lambda>p2.
        bind_exc (kwarg kwargs ''pitstop_3'') (\<lambda>p3.
        bind_exc (kwarg kwargs ''finish'') (\<lambda>fi.
          Person_init strptime nm rn st p1 p2 p3 fi
            (case map_of kwargs ''time_format'' of None \<Rightarrow> PyStr ''%H:%M:%S'' | Some f \<Rightarrow> f)))))))))"

section \<open>The registry\<close>

record People =
  people :: "Person list"
  use_first_name_in_plots :: bool

text \<open>
  \<^verbatim>\<open>People.__init__\<close>. \<^verbatim>\<open>list.sort(key=...)\<close> is a stable sort, as \<open>sort_key\<close> is.
  The time formatter belongs to the rendering and is left out.
\<close>

definition People_init :: "Person list \<Rightarrow> People" where
  "People_init ps =
     (let sorted_people = sort_key total_time ps;
          set_of_names = set (map name sorted_people)
      in \<lparr>people = sorted_people,
          use_first_name_in_plots = (card set_of_names = length sorted_people)\<rparr>)"

text \<open>The name put on a bar, lines 231 and 277:
  \<^verbatim>\<open>person.first_name if self.use_first_name_in_plots else person.name\<close>.\<close>

definition plot_name :: "People \<Rightarrow> Person \<Rightarrow> string" where
  "plot_name self person = (if use_first_name_in_plots self then first_name person else name person)"

section \<open>The bar charts\<close>

text \<open>
  The calls made on the axes that carry participant data. Coordinates and limits are
  recorded before the floating-point scaling the source applies to them
  (\<^verbatim>\<open>min(times) * 0.965\<close> and the like); ticks, titles and the grid are left out.
\<close>

datatype ax_call =
    Bar string int
  | Barh string int string
  | Text nat int string
  | SetLim int int

text \<open>The builtins \<^verbatim>\<open>min\<close> and \<^verbatim>\<open>max\<close> on a list.\<close>

fun py_min :: "int list \<Rightarrow> py_exception + int" where
  "py_min [] = Inl (ValueError ''min() arg is an empty sequence'')"
| "py_min (x # xs) = Inr (fold min xs x)"

fun py_max :: "int list \<Rightarrow> py_exception + int" where
  "py_max [] = Inl (ValueError ''max() arg is an empty sequence'')"
| "py_max (x # xs) = Inr (fold max xs x)"

text \<open>\<^verbatim>\<open>plot_leg_as_bar\<close>: the first loop collects the times and draws the bars.\<close>

fun leg_bars :: "People \<Rightarrow> int \<Rightarrow> Person list \<Rightarrow> py_exception + (int list \<times> ax_call list)" where
  "leg_bars self leg_no [] = Inr ([], [])"
| "leg_bars self leg_no (person # rest) =
     bind_exc (get_leg_time person leg_no) (\<lambda>time.
     bind_exc (leg_bars self leg_no rest) (\<lambda>(tms, calls).
       Inr (time # tms, Bar (plot_name self person) time # calls)))"

text \<open>The second loop writes each time and, unless it is the minimum, the gap to it.\<close>

fun leg_texts :: "int list \<Rightarrow> int \<Rightarrow> nat \<Rightarrow> Person list \<Rightarrow> py_exception + ax_call list" where
  "leg_texts tms leg_no i [] = Inr []"
| "leg_texts tms leg_no i (person # rest) =
     bind_exc (get_leg_time person leg_no) (\<lambda>time.
     bind_exc (py_min tms) (\<lambda>m.
     bind_exc (leg_texts tms leg_no (Suc i) rest) (\<lambda>calls.
       Inr (Text i time (seconds_to_human_time time)
            # (if time = m then []
               else [Text i time (CHR ''+'' # seconds_to_human_time (time - m))])
            @ calls))))"

definition plot_leg_as_bar :: "People \<Rightarrow> int \<Rightarrow> py_exception + ax_call list" where
  "plot_leg_as_bar self leg_no =
     bind_exc (leg_bars self leg_no (people self)) (\<lambda>(tms, bars).
     bind_exc (leg_texts tms leg_no 0 (people self)) (\<lambda>texts.
     bind_exc (py_min tms) (\<lambda>lo.
     bind_exc (py_max tms) (\<lambda>hi.
       Inr (bars @ texts @ [SetLim lo hi])))))"

text \<open>\<^verbatim>\<open>plot_total_as_bar\<close>, with the same two loops over the total times.\<close>

fun total_bars :: "People \<Rightarrow> nat \<Rightarrow> Person list \<Rightarrow> int list \<times> ax_call list" where
  "total_bars self i [] = ([], [])"
| "total_bars self i (person # rest) =
     (let time = total_time person; (tms, calls) = total_bars self (Suc i) rest
      in (time # tms, Barh (plot_name self person) time (CHR ''C'' # str_int (int i)) # calls))"

fun total_texts :: "int list \<Rightarrow> nat \<Rightarrow> Person list \<Rightarrow> py_exception + ax_call list" where
  "total_texts tms i [] = Inr []"
| "total_texts tms i (person # rest) =
     (let time = total_time person in
      bind_exc (py_min tms) (\<lambda>m.
      bind_exc (total_texts tms (Suc i) rest) (\<lambda>calls.
        Inr (Text i time (seconds_to_human_time time)
             # (if time = m then []
                else [Text i time (CHR ''+'' # seconds_to_human_time (time - m))])
             @ calls))))"

definition plot_total_as_bar :: "People \<Rightarrow> py_exception + ax_call list" where
  "plot_total_as_bar self =
     (let (tms, bars) = total_bars self 0 (people self) in
      bind_exc (total_texts tms 0 (people self)) (\<lambda>texts.
      bind_exc (py_min tms) (\<lambda>lo.
      bind_exc (py_max tms) (\<lambda>hi.
        Inr (bars @ texts @ [SetLim lo hi])))))"

section \<open>Parsed documents\<close>

text \<open>
  A parsed document is a tree of tags and strings. \<^verbatim>\<open>requests.get\<close> followed by
  \<^verbatim>\<open>BeautifulSoup(..., "html.parser")\<close> is a parameter of the model: a function from
  the URL to the root of the parsed document, or to the exception raised on the way.
\<close>

datatype node =
    Element string "(string \<times> string) list" "node list"
  | NavigableString string

type_synonym fetch_fn = "string \<Rightarrow> py_exception + node"

text \<open>All nodes below a node, in document order.\<close>

fun descendants :: "node \<Rightarrow> node list" where
  "descendants (NavigableString s) = []"
| "descendants (Element t as cs) = concat (map (\<lambda>c. c # descendants c) cs)"

fun is_tag :: "string \<Rightarrow> node \<Rightarrow> bool" where
  "is_tag nm (NavigableString s) = False"
| "is_tag nm (Element t as cs) = (t = nm)"

fun attr :: "node \<Rightarrow> string \<Rightarrow> string option" where
  "attr (NavigableString s) k = None"
| "attr (Element t as cs) k = map_of as k"

text \<open>\<^verbatim>\<open>find_all(name, attrs)\<close>, \<^verbatim>\<open>find_all(name, href=True)\<close> and \<^verbatim>\<open>find(name, attrs)\<close>.\<close>

definition find_all :: "string \<Rightarrow> (string \<times> string) list \<Rightarrow> node \<Rightarrow> node list" where
  "find_all nm req n =
     filter (\<lambda>e. is_tag nm e \<and> list_all (\<lambda>(k, v). attr e k = Some v) req) (descendants n)"

definition find_all_with :: "string \<Rightarrow> string \<Rightarrow> node \<Rightarrow> node list" where
  "find_all_with nm k n = filter (\<lambda>e. is_tag nm e \<and> attr e k \<noteq> None) (descendants n)"

definition find_tag :: "string \<Rightarrow> (string \<times> string) list \<Rightarrow> node \<Rightarrow> node option" where
  "find_tag nm req n = (case find_all nm req n of [] \<Rightarrow> None | e # _ \<Rightarrow> Some e)"

fun get_text :: "node \<Rightarrow> string" where
  "get_text (NavigableString s) = s"
| "get_text (Element t as cs) = concat (map get_text cs)"

text \<open>\<^verbatim>\<open>tag[key]\<close>\<close>

definition get_item :: "node \<Rightarrow> string \<Rightarrow> py_exception + string" where
  "get_item e k = (case attr e k of None \<Rightarrow> Inl KeyError | Some v \<Rightarrow> Inr v)"

text \<open>\<^verbatim>\<open>str.lower\<close> on ASCII letters and \<^verbatim>\<open>str.replace(" ", "_")\<close>.\<close>

definition lower_char :: "char \<Rightarrow> char" where
  "lower_char c =
     (case map_of (zip ''ABCDEFGHIJKLMNOPQRSTUVWXYZ'' ''abcdefghijklmnopqrstuvwxyz'') c of
        None \<Rightarrow> c | Some l \<Rightarrow> l)"

definition normalise_key :: "string \<Rightarrow> string" where
  "normalise_key k = map (\<lambda>c. if c = CHR '' '' then CHR ''_'' else c) (map lower_char k)"

section \<open>The result extractor\<close>

datatype MightHikeLocation =
    Wye_Valley | Jurassic_Coast | Rob_Roy | Cornwall_Coast | Peak_District | Thames_Path
  | Gower_Peninsula | Yorkshire_Dales | Giants_Causeway | Lake_District | South_Coast
  | London | Eryri_Snowdonia | Norfolk_Coast

fun location_value :: "MightHikeLocation \<Rightarrow> int" where
  "location_value Wye_Valley = 20439"
| "location_value Jurassic_Coast = 20440"
| "location_value Rob_Roy = 20437"
| "location_value Cornwall_Coast = 20438"
| "location_value Peak_District = 20436"
| "location_value Thames_Path = 20435"
| "location_value Gower_Peninsula = 20434"
| "location_value Yorkshire_Dales = 20433"
| "location_value Giants_Causeway = 20432"
| "location_value Lake_District = 20431"
| "location_value South_Coast = 20430"
| "location_value London = 20429"
| "location_value Eryri_Snowdonia = 20428"
| "location_value Norfolk_Coast = 20427"

definition base_url :: string where
  "base_url = ''https://results.resultsbase.net/''"

definition search_results_page_url :: "MightHikeLocation \<Rightarrow> int \<Rightarrow> string" where
  "search_results_page_url race_location rn =
     base_url @ ''Search.aspx?CId=8&RId='' @ str_int (location_value race_location)
       @ ''&S='' @ str_int rn"

text \<open>
  Lines 383 to 390, on the parsed search page: the results table, the text of its first
  anchor, the link of its first anchor that has one. A missing table makes
  \<^verbatim>\<open>result\<close> \<^verbatim>\<open>None\<close>, and the call on it raises \<open>AttributeError\<close>.
\<close>

definition locate :: "node \<Rightarrow> py_exception + (string \<times> string)" where
  "locate search_results_soup =
     (case find_tag ''table'' [(''id'', ''ctl00_Content_Main_grdSearch'')] search_results_soup of
        None \<Rightarrow> Inl AttributeError
      | Some result \<Rightarrow>
         (case find_all ''a'' [] result of
            [] \<Rightarrow> Inl IndexError
          | a # _ \<Rightarrow>
             (case find_all_with ''a'' ''href'' result of
                [] \<Rightarrow> Inl IndexError
              | h # _ \<Rightarrow>
                 bind_exc (get_item h ''href'') (\<lambda>href_to_stats_page.
                   Inr (get_text a, base_url @ href_to_stats_page)))))"

text \<open>Lines 405 to 411: each row stores its second cell under its normalised first cell.\<close>

fun read_rows :: "(string \<times> pyval) list \<Rightarrow> node list \<Rightarrow> py_exception + (string \<times> pyval) list" where
  "read_rows data_dict [] = Inr data_dict"
| "read_rows data_dict (table_row # rest) =
     (case take 2 (find_all ''td'' [] table_row) of
        [] \<Rightarrow> Inl IndexError
      | [k] \<Rightarrow> Inl IndexError
      | k # v # _ \<Rightarrow>
          read_rows (AList.update (normalise_key (get_text k)) (PyStr (get_text v)) data_dict) rest)"

text \<open>Lines 396 to 411, on the parsed detail page.\<close>

definition parse_timings :: "string \<Rightarrow> int \<Rightarrow> node \<Rightarrow> py_exception + (string \<times> pyval) list" where
  "parse_timings person_name rn stats_page_soup =
     (case find_tag ''div'' [(''id'', ''ctl00_Content_Main_divSplitGrid'')] stats_page_soup of
        None \<Rightarrow> Inl AttributeError
      | Some result \<Rightarrow>
         (case find_tag ''table'' [] result of
            None \<Rightarrow> Inl AttributeError
          | Some table \<Rightarrow>
             read_rows [(''name'', PyStr person_name), (''race_number'', PyInt rn)]
               (tl (find_all ''tr'' [] table))))"

text \<open>The body of the \<^verbatim>\<open>try\<close> block; the \<^verbatim>\<open>print\<close> is left out.\<close>

definition try_body :: "strptime_fn \<Rightarrow> fetch_fn \<Rightarrow> MightHikeLocation \<Rightarrow> int \<Rightarrow> py_exception + Person" where
  "try_body strptime fetch race_location rn =
     bind_exc (fetch (search_results_page_url race_location rn)) (\<lambda>search_results_soup.
     bind_exc (locate search_results_soup) (\<lambda>(person_name, stats_page_url).
     bind_exc (fetch stats_page_url) (\<lambda>stats_page_soup.
     bind_exc (parse_timings person_name rn stats_page_soup) (\<lambda>data_dict.
       Person_call strptime data_dict))))"

text \<open>\<^verbatim>\<open>generate_person_from_race_nubmer\<close>: every exception of the body becomes the one
  \<open>RuntimeError\<close> that names the race number.\<close>

definition generate_person_from_race_nubmer ::
  "strptime_fn \<Rightarrow> fetch_fn \<Rightarrow> MightHikeLocation \<Rightarrow> int \<Rightarrow> py_exception + Person" where
  "generate_person_from_race_nubmer strptime fetch race_location rn =
     (case try_body strptime fetch race_location rn of
        Inl e \<Rightarrow>
          Inl (RuntimeError (''Could not find relevant data for race_number '' @ str_int rn @ ''.''))
      | Inr person \<Rightarrow> Inr person)"

section \<open>The batch resolver\<close>

fun people_loop ::
  "strptime_fn \<Rightarrow> fetch_fn \<Rightarrow> MightHikeLocation \<Rightarrow> Person list \<Rightarrow> int list
     \<Rightarrow> py_exception + Person list" where
  "people_loop strptime fetch race_location people_list [] = Inr people_list"
| "people_loop strptime fetch race_location people_list (rn # rest) =
     (case generate_person_from_race_nubmer strptime fetch race_location rn of
        Inl e \<Rightarrow> Inl e
      | Inr person \<Rightarrow> people_loop strptime fetch race_location (people_list @ [person]) rest)"

definition generate_people_from_race_nubmers ::
  "strptime_fn \<Rightarrow> fetch_fn \<Rightarrow> MightHikeLocation \<Rightarrow> int list \<Rightarrow> py_exception + People" where
  "generate_people_from_race_nubmers strptime fetch race_location race_numbers =
     (case people_loop strptime fetch race_location [] race_numbers of
        Inl e \<Rightarrow> Inl e
      | Inr people_list \<Rightarrow> Inr (People_init people_list))"

section \<open>Sample inputs\<close>

definition hms :: "int \<Rightarrow> int \<Rightarrow> int \<Rightarrow> datetime" where
  "hms h m s = \<lparr>hour = h, minute = m, second = s\<rparr>"

text \<open>Race numbers 643 and 644 of the end-to-end scenario.\<close>

definition person_643 :: Person where
  "person_643 = \<lparr>name = ''Alex Smith'', first_name = ''Alex'', race_number = PyInt 643,
     start = hms 8 0 0, pitstop_1 = hms 9 15 30, pitstop_2 = hms 10 40 0,
     pitstop_3 = hms 12 5 10, finish = hms 13 30 0\<rparr>"

definition person_644 :: Person where
  "person_644 = \<lparr>name = ''Sam Jones'', first_name = ''Sam'', race_number = PyInt 644,
     start = hms 8 0 0, pitstop_1 = hms 9 10 0, pitstop_2 = hms 10 35 0,
     pitstop_3 = hms 12 0 0, finish = hms 13 20 0\<rparr>"

text \<open>A hike over midnight: start at 23:00:00, finish at 05:00:00.\<close>

definition night_person :: Person where
  "night_person = \<lparr>name = ''Night Owl'', first_name = ''Night'', race_number = PyInt 7,
     start = hms 23 0 0, pitstop_1 = hms 0 30 0, pitstop_2 = hms 2 0 0,
     pitstop_3 = hms 3 30 0, finish = hms 5 0 0\<rparr>"

text \<open>Two checkpoints entered in the wrong order: pitstop 2 before pitstop 1.\<close>

definition swapped_person :: Person where
  "swapped_person = \<lparr>name = ''Pat Lee'', first_name = ''Pat'', race_number = PyInt 8,
     start = hms 8 0 0, pitstop_1 = hms 10 0 0, pitstop_2 = hms 9 0 0,
     pitstop_3 = hms 11 0 0, finish = hms 12 0 0\<rparr>"

text \<open>Two more participants: one tying with 643 on the total time, one with its name.\<close>

definition person_645 :: Person where
  "person_645 = \<lparr>name = ''Chris Young'', first_name = ''Chris'', race_number = PyInt 645,
     start = hms 8 30 0, pitstop_1 = hms 9 30 0, pitstop_2 = hms 11 0 0,
     pitstop_3 = hms 12 30 0, finish = hms 14 0 0\<rparr>"

definition person_646 :: Person where
  "person_646 = \<lparr>name = ''Alex Smith'', first_name = ''Alex'', race_number = PyInt 646,
     start = hms 8 0 0, pitstop_1 = hms 9 0 0, pitstop_2 = hms 10 0 0,
     pitstop_3 = hms 11 0 0, finish = hms 12 0 0\<rparr>"

text \<open>A stand-in for \<^verbatim>\<open>datetime.strptime\<close> on the format \<^verbatim>\<open>%H:%M:%S\<close> with
  two-digit fields, used where an example needs a concrete function.\<close>

definition digit_val :: "char \<Rightarrow> int option" where
  "digit_val c = map_of (zip ''0123456789'' [0, 1, 2, 3, 4, 5, 6, 7, 8, 9]) c"

definition two_digit_val :: "char \<Rightarrow> char \<Rightarrow> int option" where
  "two_digit_val a b =
     (case digit_val a of None \<Rightarrow> None
      | Some x \<Rightarrow> (case digit_val b of None \<Rightarrow> None | Some y \<Rightarrow> Some (10 * x + y)))"

definition sample_strptime :: strptime_fn where
  "sample_strptime s fmt =
     (if fmt \<noteq> ''%H:%M:%S'' then Inl (ValueError ''unsupported format'')
      else case s of
        [h1, h2, c1, m1, m2, c2, s1, s2] \<Rightarrow>
          (case (two_digit_val h1 h2, two_digit_val m1 m2, two_digit_val s1 s2) of
             (Some h, Some m, Some sec) \<Rightarrow>
               if c1 = CHR '':'' \<and> c2 = CHR '':'' \<and> h < 24 \<and> m < 60 \<and> sec < 60
               then Inr (hms h m sec)
               else Inl (ValueError ''time data does not match format'')
           | _ \<Rightarrow> Inl (ValueError ''time data does not match format''))
      | _ \<Rightarrow> Inl (ValueError ''time data does not match format''))"

text \<open>Stub documents: a search page with one result row per anchor, and a detail page
  with a header row and one row per (label, value) pair.\<close>

definition search_page :: "(string \<times> string) list \<Rightarrow> node" where
  "search_page results =
     Element ''[document]'' []
       [Element ''table'' [(''id'', ''ctl00_Content_Main_grdSearch'')]
          (Element ''tr'' [] [Element ''th'' [] [NavigableString ''Name'']]
           # map (\<lambda>(person_name, href).
                Element ''tr'' []
                  [Element ''td'' [] [Element ''a'' [(''href'', href)] [NavigableString person_name]]])
              results)]"

definition detail_page :: "(string \<times> string) list \<Rightarrow> node" where
  "detail_page rows =
     Element ''[document]'' []
       [Element ''div'' [(''id'', ''ctl00_Content_Main_divSplitGrid'')]
          [Element ''table'' []
             (Element ''tr'' []
                [Element ''th'' [] [NavigableString ''Split''],
                 Element ''th'' [] [NavigableString ''Time'']]
              # map (\<lambda>(k, v).
                   Element ''tr'' []
                     [Element ''td'' [] [NavigableString k], Element ''td'' [] [NavigableString v]])
                 rows)]]"

definition timings_643 :: "(string \<times> string) list" where
  "timings_643 = [(''Start'', ''08:00:00''), (''Pitstop 1'', ''09:15:30''),
     (''Pitstop 2'', ''10:40:00''), (''Pitstop 3'', ''12:05:10''), (''Finish'', ''13:30:00'')]"

definition timings_644 :: "(string \<times> string) list" where
  "timings_644 = [(''Start'', ''08:00:00''), (''Pitstop 1'', ''09:10:00''),
     (''Pitstop 2'', ''10:35:00''), (''Pitstop 3'', ''12:00:00''), (''Finish'', ''13:20:00'')]"

text \<open>
  A stub of the results site for the Jurassic Coast (id 20440): 643 and 644 are well
  formed; the detail page of 645 lacks the finish row; the detail page of 646 has the
  five rows of 643 and a further row \<open>Gun Time\<close>; the search for 647 returns two rows;
  the search for 648 returns a table without rows; every other URL is a transport fault.
\<close>

definition sample_fetch :: fetch_fn where
  "sample_fetch url =
     (if url = ''https://results.resultsbase.net/Search.aspx?CId=8&RId=20440&S=643''
        then Inr (search_page [(''Alex Smith'', ''Details.aspx?id=643'')])
      else if url = ''https://results.resultsbase.net/Search.aspx?CId=8&RId=20440&S=644''
        then Inr (search_page [(''Sam Jones'', ''Details.aspx?id=644'')])
      else if url = ''https://results.resultsbase.net/Search.aspx?CId=8&RId=20440&S=645''
        then Inr (search_page [(''Chris Young'', ''Details.aspx?id=645'')])
      else if url = ''https://results.resultsbase.net/Search.aspx?CId=8&RId=20440&S=646''
        then Inr (search_page [(''Alex Smith'', ''Details.aspx?id=646'')])
      else if url = ''https://results.resultsbase.net/Search.aspx?CId=8&RId=20440&S=647''
        then Inr (search_page [(''Alex Smith'', ''Details.aspx?id=643''),
                               (''Sam Jones'', ''Details.aspx?id=644'')])
      else if url = ''https://results.resultsbase.net/Search.aspx?CId=8&RId=20440&S=648''
        then Inr (search_page [])
      else if url = ''https://results.resultsbase.net/Details.aspx?id=643''
        then Inr (detail_page timings_643)
      else if url = ''https://results.resultsbase.net/Details.aspx?id=644''
        then Inr (detail_page timings_644)
      else if url = ''https://results.resultsbase.net/Details.aspx?id=645''
        then Inr (detail_page (butlast timings_643))
      else if url = ''https://results.resultsbase.net/Details.aspx?id=646''
        then Inr (detail_page (timings_643 @ [(''Gun Time'', ''05:30:00'')]))
      else Inl RequestException)"

section \<open>Properties of the time model\<close>

lemma seconds_datetime_sub: "seconds (datetime_sub b a) = (secs b - secs a) mod 86400"
  by (simp add: datetime_sub_def timedelta_new_def)

lemma secs_range: "valid_datetime d \<Longrightarrow> 0 \<le> secs d \<and> secs d < 86400"
  by (auto simp: valid_datetime_def secs_def)

lemma datetime_less_secs:
  assumes "valid_datetime a" "valid_datetime b"
  shows "datetime_less a b \<longleftrightarrow> secs a < secs b"
  using assms unfolding valid_datetime_def datetime_less_def secs_def by auto

lemma secs_nested: "secs d = second d + 60 * (minute d + 60 * hour d)"
  by (simp add: secs_def)

lemma mod_sixty: "0 \<le> s \<Longrightarrow> s < 60 \<Longrightarrow> (s + 60 * k) mod 60 = (s::int)"
  by simp

lemma div_sixty: "0 \<le> s \<Longrightarrow> s < 60 \<Longrightarrow> (s + 60 * k) div 60 = (k::int)"
  by simp

lemma second_of_secs:
  assumes "valid_datetime d"
  shows "second d = secs d mod 60"
proof -
  have "0 \<le> second d" "second d < 60"
    using assms by (simp_all add: valid_datetime_def)
  then show ?thesis
    by (simp only: secs_nested mod_sixty)
qed

lemma minute_of_secs:
  assumes "valid_datetime d"
  shows "minute d = (secs d div 60) mod 60"
proof -
  have s: "0 \<le> second d" "second d < 60" and m: "0 \<le> minute d" "minute d < 60"
    using assms by (simp_all add: valid_datetime_def)
  have "secs d div 60 = minute d + 60 * hour d"
    using s by (simp only: secs_nested div_sixty)
  then show ?thesis
    using m by (simp only: mod_sixty)
qed

lemma hour_of_secs:
  assumes "valid_datetime d"
  shows "hour d = (secs d div 60) div 60"
proof -
  have s: "0 \<le> second d" "second d < 60" and m: "0 \<le> minute d" "minute d < 60"
    using assms by (simp_all add: valid_datetime_def)
  have "secs d div 60 = minute d + 60 * hour d"
    using s by (simp only: secs_nested div_sixty)
  then show ?thesis
    using m by (simp only: div_sixty)
qed

lemma datetime_eq_secs:
  assumes "valid_datetime a" "valid_datetime b"
  shows "a = b \<longleftrightarrow> secs a = secs b"
proof
  assume e: "secs a = secs b"
  have "second a = second b" "minute a = minute b" "hour a = hour b"
    using assms e by (simp_all add: second_of_secs minute_of_secs hour_of_secs)
  then show "a = b" by simp
qed simp

lemma datetime_le_secs:
  assumes "valid_datetime a" "valid_datetime b"
  shows "datetime_le a b \<longleftrightarrow> secs a \<le> secs b"
  using datetime_less_secs[OF assms] datetime_eq_secs[OF assms]
  unfolding datetime_le_def by auto


lemma duration_cases:
  assumes "valid_datetime a" "valid_datetime b"
  shows "seconds (datetime_sub b a) =
           (if datetime_le a b then secs b - secs a else 86400 - (secs a - secs b))"
proof (cases "secs a \<le> secs b")
  case True
  then have "0 \<le> secs b - secs a" "secs b - secs a < 86400"
    using secs_range[OF assms(1)] secs_range[OF assms(2)] by simp_all
  then have "(secs b - secs a) mod 86400 = secs b - secs a"
    by simp
  then show ?thesis
    using True by (simp add: seconds_datetime_sub datetime_le_secs[OF assms])
next
  case False
  then have "0 \<le> 86400 + (secs b - secs a)" "86400 + (secs b - secs a) < 86400"
    using secs_range[OF assms(1)] secs_range[OF assms(2)] by simp_all
  then have "(86400 + (secs b - secs a)) mod 86400 = 86400 + (secs b - secs a)"
    by (rule mod_pos_pos_trivial)
  moreover have "(86400 + (secs b - secs a)) mod 86400 = (secs b - secs a) mod 86400"
    by simp
  ultimately show ?thesis
    using False by (simp add: seconds_datetime_sub datetime_le_secs[OF assms])
qed

lemma mod_sum_four:
  "(a mod n + b mod n + c mod n + d mod n) mod n = (a + b + c + d) mod (n::int)"
proof -
  have r: "x mod n mod n = x mod n" for x
    by simp
  have "(a mod n + b mod n) mod n = (a + b) mod n"
    by (rule mod_add_cong) (rule r)+
  then have "(a mod n + b mod n + c mod n) mod n = (a + b + c) mod n"
    by (rule mod_add_cong) (rule r)
  then show ?thesis
    by (rule mod_add_cong) (rule r)
qed

lemma duration_range: "0 \<le> seconds (datetime_sub b a) \<and> seconds (datetime_sub b a) < 86400"
  by (simp add: seconds_datetime_sub)

section \<open>Claims about the time model\<close>

text \<open>
  C1 (amended). For timestamps that are valid times of day, the duration from \<open>a\<close> to
  \<open>b\<close>, as \<^verbatim>\<open>total_time\<close> computes it for (start, finish) and \<^verbatim>\<open>get_leg_time\<close> for
  each leg, is \<open>b - a\<close> in whole seconds when \<open>a \<le> b\<close>; when \<open>b < a\<close> nothing is raised
  and the result is \<open>86400 - (a - b)\<close>, the difference taken modulo one day. In both
  cases it lies between 0 and 86399.
\<close>

theorem duration_same_day_or_wrapped:
  assumes "valid_datetime (start p)" "valid_datetime (pitstop_1 p)" "valid_datetime (pitstop_2 p)"
    "valid_datetime (pitstop_3 p)" "valid_datetime (finish p)"
  shows "total_time p =
           (if datetime_le (start p) (finish p) then secs (finish p) - secs (start p)
            else 86400 - (secs (start p) - secs (finish p)))
       \<and> get_leg_time p 1 =
           Inr (if datetime_le (start p) (pitstop_1 p) then secs (pitstop_1 p) - secs (start p)
                else 86400 - (secs (start p) - secs (pitstop_1 p)))
       \<and> get_leg_time p 2 =
           Inr (if datetime_le (pitstop_1 p) (pitstop_2 p) then secs (pitstop_2 p) - secs (pitstop_1 p)
                else 86400 - (secs (pitstop_1 p) - secs (pitstop_2 p)))
       \<and> get_leg_time p 3 =
           Inr (if datetime_le (pitstop_2 p) (pitstop_3 p) then secs (pitstop_3 p) - secs (pitstop_2 p)
                else 86400 - (secs (pitstop_2 p) - secs (pitstop_3 p)))
       \<and> get_leg_time p 4 =
           Inr (if datetime_le (pitstop_3 p) (finish p) then secs (finish p) - secs (pitstop_3 p)
                else 86400 - (secs (pitstop_3 p) - secs (finish p)))
       \<and> 0 \<le> total_time p \<and> total_time p < 86400"
  unfolding total_time_def get_leg_time_def
  using duration_cases[OF assms(1) assms(5)] duration_cases[OF assms(1) assms(2)]
    duration_cases[OF assms(2) assms(3)] duration_cases[OF assms(3) assms(4)]
    duration_cases[OF assms(4) assms(5)] duration_range[of "finish p" "start p"]
  by simp

theorem duration_same_day_or_wrapped_witness:
  "valid_datetime (start person_643) \<and> valid_datetime (finish person_643)
   \<and> total_time person_643 = 19800 \<and> get_leg_time person_643 1 = Inr 4530
   \<and> datetime_less (finish night_person) (start night_person)
   \<and> total_time night_person = 21600 \<and> get_leg_time night_person 1 = Inr 5400"
  using duration_same_day_or_wrapped[of person_643] duration_same_day_or_wrapped[of night_person]
  by (simp add: person_643_def night_person_def hms_def valid_datetime_def datetime_le_def
      datetime_less_def secs_def)

text \<open>
  C1, as stated, fails: with pitstop 2 (09:00:00) before pitstop 1 (10:00:00), leg 2 does
  not fail but returns 82800 seconds, and a finish (05:00:00) before the start
  (23:00:00) gives the total 21600.
\<close>

theorem duration_no_failure_counterexample:
  "datetime_less (pitstop_2 swapped_person) (pitstop_1 swapped_person)
   \<and> get_leg_time swapped_person 2 = Inr 82800
   \<and> datetime_less (finish night_person) (start night_person)
   \<and> total_time night_person = 21600"
  by (simp add: swapped_person_def night_person_def hms_def datetime_less_def
      get_leg_time_def total_time_def datetime_sub_def timedelta_new_def secs_def)

lemma leg_seconds_range:
  "0 \<le> (x::int) mod 86400 \<and> x mod 86400 < 86400"
  by simp

text \<open>
  C3 (amended). For every participant whose five timestamps are whole-second times of
  day, the four legs always succeed, each with a value from 0 to 86399, and their sum is
  congruent to the total time modulo 86400. The sum equals the total time if and only if
  it is below 86400; this is so, in particular, whenever the five timestamps are in
  non-decreasing order.
\<close>

theorem legs_sum_to_total:
  assumes "valid_datetime (start p)" "valid_datetime (pitstop_1 p)" "valid_datetime (pitstop_2 p)"
    "valid_datetime (pitstop_3 p)" "valid_datetime (finish p)"
  shows "\<exists>l1 l2 l3 l4.
     get_leg_time p 1 = Inr l1 \<and> get_leg_time p 2 = Inr l2
     \<and> get_leg_time p 3 = Inr l3 \<and> get_leg_time p 4 = Inr l4
     \<and> 0 \<le> l1 \<and> l1 < 86400 \<and> 0 \<le> l2 \<and> l2 < 86400
     \<and> 0 \<le> l3 \<and> l3 < 86400 \<and> 0 \<le> l4 \<and> l4 < 86400
     \<and> (l1 + l2 + l3 + l4) mod 86400 = total_time p
     \<and> (l1 + l2 + l3 + l4 = total_time p \<longleftrightarrow> l1 + l2 + l3 + l4 < 86400)
     \<and> (datetime_le (start p) (pitstop_1 p) \<and> datetime_le (pitstop_1 p) (pitstop_2 p)
          \<and> datetime_le (pitstop_2 p) (pitstop_3 p) \<and> datetime_le (pitstop_3 p) (finish p)
        \<longrightarrow> l1 + l2 + l3 + l4 = total_time p)"
proof -
  let ?a = "secs (pitstop_1 p) - secs (start p)"
  let ?b = "secs (pitstop_2 p) - secs (pitstop_1 p)"
  let ?c = "secs (pitstop_3 p) - secs (pitstop_2 p)"
  let ?d = "secs (finish p) - secs (pitstop_3 p)"
  let ?sum = "?a mod 86400 + ?b mod 86400 + ?c mod 86400 + ?d mod 86400"
  have legs: "get_leg_time p 1 = Inr (?a mod 86400)" "get_leg_time p 2 = Inr (?b mod 86400)"
    "get_leg_time p 3 = Inr (?c mod 86400)" "get_leg_time p 4 = Inr (?d mod 86400)"
    by (simp_all only: get_leg_time_def seconds_datetime_sub) simp_all
  have ranges: "0 \<le> ?a mod 86400" "?a mod 86400 < 86400" "0 \<le> ?b mod 86400"
    "?b mod 86400 < 86400" "0 \<le> ?c mod 86400" "?c mod 86400 < 86400"
    "0 \<le> ?d mod 86400" "?d mod 86400 < 86400"
    using leg_seconds_range by blast+
  have total: "total_time p = (secs (finish p) - secs (start p)) mod 86400"
    by (simp only: total_time_def seconds_datetime_sub)
  have total_range: "0 \<le> total_time p" "total_time p < 86400"
    unfolding total using leg_seconds_range by blast+
  have tele: "?a + ?b + ?c + ?d = secs (finish p) - secs (start p)"
    by simp
  have cong: "?sum mod 86400 = total_time p"
    by (simp only: mod_sum_four tele total)
  have sum_nonneg: "0 \<le> ?sum"
    using ranges by linarith
  have exact: "?sum = total_time p \<longleftrightarrow> ?sum < 86400"
  proof
    assume "?sum = total_time p"
    then show "?sum < 86400"
      using total_range(2) by (simp only:)
  next
    assume "?sum < 86400"
    then have "?sum mod 86400 = ?sum"
      using sum_nonneg by (rule_tac mod_pos_pos_trivial)
    then show "?sum = total_time p"
      using cong by (simp only:)
  qed
  have mono: "?sum = total_time p"
    if m: "datetime_le (start p) (pitstop_1 p)" "datetime_le (pitstop_1 p) (pitstop_2 p)"
      "datetime_le (pitstop_2 p) (pitstop_3 p)" "datetime_le (pitstop_3 p) (finish p)"
  proof -
    have le: "secs (start p) \<le> secs (pitstop_1 p)" "secs (pitstop_1 p) \<le> secs (pitstop_2 p)"
      "secs (pitstop_2 p) \<le> secs (pitstop_3 p)" "secs (pitstop_3 p) \<le> secs (finish p)"
      using m assms by (simp_all only: datetime_le_secs)
    have r: "0 \<le> secs (start p)" "secs (finish p) < 86400"
      using secs_range[OF assms(1)] secs_range[OF assms(5)] by simp_all
    have lo: "0 \<le> ?a" "0 \<le> ?b" "0 \<le> ?c" "0 \<le> ?d"
      "0 \<le> secs (finish p) - secs (start p)"
      using le by linarith+
    have hi: "?a < 86400" "?b < 86400" "?c < 86400" "?d < 86400"
      "secs (finish p) - secs (start p) < 86400"
      using le r by linarith+
    have "?a mod 86400 = ?a" "?b mod 86400 = ?b" "?c mod 86400 = ?c" "?d mod 86400 = ?d"
      "(secs (finish p) - secs (start p)) mod 86400 = secs (finish p) - secs (start p)"
      using lo hi by (simp_all only: mod_pos_pos_trivial)
    then show ?thesis
      using tele by (simp only: total)
  qed
  show ?thesis
    using legs ranges cong exact mono by blast
qed

theorem legs_sum_to_total_witness:
  "valid_datetime (start person_643) \<and> valid_datetime (finish person_643)
   \<and> get_leg_time person_643 1 = Inr 4530 \<and> get_leg_time person_643 2 = Inr 5070
   \<and> get_leg_time person_643 3 = Inr 5110 \<and> get_leg_time person_643 4 = Inr 5090
   \<and> datetime_le (start person_643) (pitstop_1 person_643)
   \<and> datetime_le (pitstop_3 person_643) (finish person_643)
   \<and> total_time person_643 = 4530 + 5070 + 5110 + 5090
   \<and> \<not> datetime_le (start night_person) (pitstop_1 night_person)
   \<and> get_leg_time night_person 1 = Inr 5400 \<and> get_leg_time night_person 2 = Inr 5400
   \<and> get_leg_time night_person 3 = Inr 5400 \<and> get_leg_time night_person 4 = Inr 5400
   \<and> (5400 + 5400 + 5400 + 5400 :: int) < 86400
   \<and> total_time night_person = 5400 + 5400 + 5400 + 5400"
  using legs_sum_to_total[of person_643] legs_sum_to_total[of night_person]
  by (simp add: person_643_def night_person_def hms_def valid_datetime_def datetime_le_def
      datetime_less_def get_leg_time_def datetime_sub_def timedelta_new_def secs_def)

text \<open>
  C3, as stated for any five timestamps, fails: with pitstop 2 before pitstop 1 the legs
  are 7200, 82800, 7200 and 3600 seconds, 100800 in all, and the total time is 14400.
\<close>

theorem legs_sum_counterexample:
  "get_leg_time swapped_person 1 = Inr 7200 \<and> get_leg_time swapped_person 2 = Inr 82800
   \<and> get_leg_time swapped_person 3 = Inr 7200 \<and> get_leg_time swapped_person 4 = Inr 3600
   \<and> total_time swapped_person = 14400
   \<and> (7200 + 82800 + 7200 + 3600 :: int) \<noteq> 14400"
  by (simp add: swapped_person_def hms_def get_leg_time_def total_time_def datetime_sub_def
      timedelta_new_def secs_def)

lemma secs_difference:
  "secs b - secs a = 3600 * (hour b - hour a) + 60 * (minute b - minute a) + (second b - second a)"
  by (simp add: secs_def algebra_simps)

lemma elapsed_cases:
  assumes "valid_datetime a" "valid_datetime b"
  shows "seconds (datetime_sub b a) =
    (if datetime_le a b
     then 3600 * (hour b - hour a) + 60 * (minute b - minute a) + (second b - second a)
     else 86400 + (3600 * (hour b - hour a) + 60 * (minute b - minute a) + (second b - second a)))"
  using duration_cases[OF assms] by (simp only: secs_difference[symmetric]) simp

text \<open>
  C7 (amended). For a participant whose timestamps are whole-second times of day, leg 1
  runs from start to pitstop 1, leg 2 from pitstop 1 to pitstop 2, leg 3 from pitstop 2
  to pitstop 3 and leg 4 from pitstop 3 to the finish. The leg from \<open>a\<close> to \<open>b\<close> is the
  elapsed time in whole seconds, 3600 for each hour, 60 for each minute and 1 for each
  second of the difference, when \<open>a \<le> b\<close>; when \<open>b < a\<close> it does not fail but is that
  (negative) difference plus 86400. For every participant, a leg number outside 1 to 4
  raises the \<open>ValueError\<close> of the source, and only such a leg number does.
\<close>

theorem get_leg_time_by_leg:
  "(valid_datetime (start p) \<and> valid_datetime (pitstop_1 p) \<and> valid_datetime (pitstop_2 p)
      \<and> valid_datetime (pitstop_3 p) \<and> valid_datetime (finish p) \<longrightarrow>
      get_leg_time p 1 =
        Inr (if datetime_le (start p) (pitstop_1 p)
             then 3600 * (hour (pitstop_1 p) - hour (start p))
                  + 60 * (minute (pitstop_1 p) - minute (start p))
                  + (second (pitstop_1 p) - second (start p))
             else 86400 + (3600 * (hour (pitstop_1 p) - hour (start p))
                  + 60 * (minute (pitstop_1 p) - minute (start p))
                  + (second (pitstop_1 p) - second (start p))))
      \<and> get_leg_time p 2 =
        Inr (if datetime_le (pitstop_1 p) (pitstop_2 p)
             then 3600 * (hour (pitstop_2 p) - hour (pitstop_1 p))
                  + 60 * (minute (pitstop_2 p) - minute (pitstop_1 p))
                  + (second (pitstop_2 p) - second (pitstop_1 p))
             else 86400 + (3600 * (hour (pitstop_2 p) - hour (pitstop_1 p))
                  + 60 * (minute (pitstop_2 p) - minute (pitstop_1 p))
                  + (second (pitstop_2 p) - second (pitstop_1 p))))
      \<and> get_leg_time p 3 =
        Inr (if datetime_le (pitstop_2 p) (pitstop_3 p)
             then 3600 * (hour (pitstop_3 p) - hour (pitstop_2 p))
                  + 60 * (minute (pitstop_3 p) - minute (pitstop_2 p))
                  + (second (pitstop_3 p) - second (pitstop_2 p))
             else 86400 + (3600 * (hour (pitstop_3 p) - hour (pitstop_2 p))
                  + 60 * (minute (pitstop_3 p) - minute (pitstop_2 p))
                  + (second (pitstop_3 p) - second (pitstop_2 p))))
      \<and> get_leg_time p 4 =
        Inr (if datetime_le (pitstop_3 p) (finish p)
             then 3600 * (hour (finish p) - hour (pitstop_3 p))
                  + 60 * (minute (finish p) - minute (pitstop_3 p))
                  + (second (finish p) - second (pitstop_3 p))
             else 86400 + (3600 * (hour (finish p) - hour (pitstop_3 p))
                  + 60 * (minute (finish p) - minute (pitstop_3 p))
                  + (second (finish p) - second (pitstop_3 p)))))
   \<and> (get_leg_time p n = Inl (ValueError ''leg_no out of bounds 1->4 inclusive.'')
        \<longleftrightarrow> n \<notin> {1, 2, 3, 4})"
proof (intro conjI impI)
  assume v: "valid_datetime (start p) \<and> valid_datetime (pitstop_1 p)
      \<and> valid_datetime (pitstop_2 p) \<and> valid_datetime (pitstop_3 p) \<and> valid_datetime (finish p)"
  then have v0: "valid_datetime (start p)" and v1: "valid_datetime (pitstop_1 p)"
    and v2: "valid_datetime (pitstop_2 p)" and v3: "valid_datetime (pitstop_3 p)"
    and v4: "valid_datetime (finish p)"
    by simp_all
  show "get_leg_time p 1 =
        Inr (if datetime_le (start p) (pitstop_1 p)
             then 3600 * (hour (pitstop_1 p) - hour (start p))
                  + 60 * (minute (pitstop_1 p) - minute (start p))
                  + (second (pitstop_1 p) - second (start p))
             else 86400 + (3600 * (hour (pitstop_1 p) - hour (start p))
                  + 60 * (minute (pitstop_1 p) - minute (start p))
                  + (second (pitstop_1 p) - second (start p))))"
    using elapsed_cases[OF v0 v1] by (simp add: get_leg_time_def)
  show "get_leg_time p 2 =
        Inr (if datetime_le (pitstop_1 p) (pitstop_2 p)
             then 3600 * (hour (pitstop_2 p) - hour (pitstop_1 p))
                  + 60 * (minute (pitstop_2 p) - minute (pitstop_1 p))
                  + (second (pitstop_2 p) - second (pitstop_1 p))
             else 86400 + (3600 * (hour (pitstop_2 p) - hour (pitstop_1 p))
                  + 60 * (minute (pitstop_2 p) - minute (pitstop_1 p))
                  + (second (pitstop_2 p) - second (pitstop_1 p))))"
    using elapsed_cases[OF v1 v2] by (simp add: get_leg_time_def)
  show "get_leg_time p 3 =
        Inr (if datetime_le (pitstop_2 p) (pitstop_3 p)
             then 3600 * (hour (pitstop_3 p) - hour (pitstop_2 p))
                  + 60 * (minute (pitstop_3 p) - minute (pitstop_2 p))
                  + (second (pitstop_3 p) - second (pitstop_2 p))
             else 86400 + (3600 * (hour (pitstop_3 p) - hour (pitstop_2 p))
                  + 60 * (minute (pitstop_3 p) - minute (pitstop_2 p))
                  + (second (pitstop_3 p) - second (pitstop_2 p))))"
    using elapsed_cases[OF v2 v3] by (simp add: get_leg_time_def)
  show "get_leg_time p 4 =
        Inr (if datetime_le (pitstop_3 p) (finish p)
             then 3600 * (hour (finish p) - hour (pitstop_3 p))
                  + 60 * (minute (finish p) - minute (pitstop_3 p))
                  + (second (finish p) - second (pitstop_3 p))
             else 86400 + (3600 * (hour (finish p) - hour (pitstop_3 p))
                  + 60 * (minute (finish p) - minute (pitstop_3 p))
                  + (second (finish p) - second (pitstop_3 p))))"
    using elapsed_cases[OF v3 v4] by (simp add: get_leg_time_def)
next
  show "get_leg_time p n = Inl (ValueError ''leg_no out of bounds 1->4 inclusive.'')
        \<longleftrightarrow> n \<notin> {1, 2, 3, 4}"
    by (simp add: get_leg_time_def)
qed

theorem get_leg_time_by_leg_witness:
  "valid_datetime (start person_644) \<and> valid_datetime (pitstop_1 person_644)
   \<and> valid_datetime (pitstop_2 person_644) \<and> valid_datetime (pitstop_3 person_644)
   \<and> valid_datetime (finish person_644)
   \<and> get_leg_time person_644 1 = Inr 4200 \<and> get_leg_time person_644 2 = Inr 5100
   \<and> get_leg_time person_644 3 = Inr 5100 \<and> get_leg_time person_644 4 = Inr 4800
   \<and> valid_datetime (pitstop_1 swapped_person) \<and> valid_datetime (pitstop_2 swapped_person)
   \<and> \<not> datetime_le (pitstop_1 swapped_person) (pitstop_2 swapped_person)
   \<and> get_leg_time swapped_person 2 = Inr 82800
   \<and> get_leg_time person_644 0 = Inl (ValueError ''leg_no out of bounds 1->4 inclusive.'')
   \<and> get_leg_time person_644 5 = Inl (ValueError ''leg_no out of bounds 1->4 inclusive.'')
   \<and> get_leg_time person_644 (- 1) = Inl (ValueError ''leg_no out of bounds 1->4 inclusive.'')"
proof -
  have v: "valid_datetime (start person_644)" "valid_datetime (pitstop_1 person_644)"
    "valid_datetime (pitstop_2 person_644)" "valid_datetime (pitstop_3 person_644)"
    "valid_datetime (finish person_644)"
    "valid_datetime (start swapped_person)" "valid_datetime (pitstop_1 swapped_person)"
    "valid_datetime (pitstop_2 swapped_person)" "valid_datetime (pitstop_3 swapped_person)"
    "valid_datetime (finish swapped_person)"
    by (simp_all add: person_644_def swapped_person_def hms_def valid_datetime_def)
  have order: "datetime_le (start person_644) (pitstop_1 person_644)"
    "datetime_le (pitstop_1 person_644) (pitstop_2 person_644)"
    "datetime_le (pitstop_2 person_644) (pitstop_3 person_644)"
    "datetime_le (pitstop_3 person_644) (finish person_644)"
    "\<not> datetime_le (pitstop_1 swapped_person) (pitstop_2 swapped_person)"
    by (simp_all add: person_644_def swapped_person_def hms_def datetime_le_def
        datetime_less_def)
  have fields: "hour (start person_644) = 8" "minute (start person_644) = 0"
    "second (start person_644) = 0" "hour (pitstop_1 person_644) = 9"
    "minute (pitstop_1 person_644) = 10" "second (pitstop_1 person_644) = 0"
    "hour (pitstop_2 person_644) = 10" "minute (pitstop_2 person_644) = 35"
    "second (pitstop_2 person_644) = 0" "hour (pitstop_3 person_644) = 12"
    "minute (pitstop_3 person_644) = 0" "second (pitstop_3 person_644) = 0"
    "hour (finish person_644) = 13" "minute (finish person_644) = 20"
    "second (finish person_644) = 0"
    "hour (pitstop_1 swapped_person) = 10" "minute (pitstop_1 swapped_person) = 0"
    "second (pitstop_1 swapped_person) = 0" "hour (pitstop_2 swapped_person) = 9"
    "minute (pitstop_2 swapped_person) = 0" "second (pitstop_2 swapped_person) = 0"
    by (simp_all add: person_644_def swapped_person_def hms_def)
  have good: "get_leg_time person_644 1 = Inr 4200" "get_leg_time person_644 2 = Inr 5100"
    "get_leg_time person_644 3 = Inr 5100" "get_leg_time person_644 4 = Inr 4800"
    using get_leg_time_by_leg[of person_644 0] v order by (simp_all add: fields)
  have wrapped: "get_leg_time swapped_person 2 = Inr 82800"
    using get_leg_time_by_leg[of swapped_person 0] v order by (simp add: fields)
  have bad: "get_leg_time person_644 0 = Inl (ValueError ''leg_no out of bounds 1->4 inclusive.'')"
    "get_leg_time person_644 5 = Inl (ValueError ''leg_no out of bounds 1->4 inclusive.'')"
    "get_leg_time person_644 (- 1) = Inl (ValueError ''leg_no out of bounds 1->4 inclusive.'')"
    using get_leg_time_by_leg[of person_644 0] get_leg_time_by_leg[of person_644 5]
      get_leg_time_by_leg[of person_644 "- 1"]
    by simp_all
  show ?thesis
    using v order good wrapped bad by simp
qed

text \<open>
  C7, as stated, fails where the duration of the spec fails: with pitstop 1 (00:30:00)
  before the start (23:00:00), leg 1 is not an error but 5400 seconds.
\<close>

theorem get_leg_time_wraps_counterexample:
  "datetime_less (pitstop_1 night_person) (start night_person)
   \<and> get_leg_time night_person 1 = Inr 5400"
  by (simp add: night_person_def hms_def datetime_less_def get_leg_time_def datetime_sub_def
      timedelta_new_def secs_def)

section \<open>Claims about the formatting of durations\<close>

lemma digits_one: "n < 10 \<Longrightarrow> digits n = [digit_char n]"
  by (simp add: digits.simps)

lemma digits_two:
  assumes "10 \<le> n" "n < 100"
  shows "digits n = [digit_char (n div 10), digit_char (n mod 10)]"
proof -
  have "n div 10 < 10"
    using assms by simp
  then show ?thesis
    using assms by (subst digits.simps) (simp add: digits_one)
qed

lemma digit_char_zero: "digit_char 0 = CHR ''0''"
  by (simp add: digit_char_def)

lemma format_02d_nat:
  assumes "n < 100"
  shows "format_02d (int n) = [digit_char (n div 10), digit_char (n mod 10)]"
proof (cases "n < 10")
  case True
  then show ?thesis
    by (simp add: format_02d_def rjust_def digits_one digit_char_zero)
next
  case False
  then show ?thesis
    using assms by (simp add: format_02d_def rjust_def digits_two)
qed

lemma format_2d_nat:
  assumes "n < 100"
  shows "format_2d (int n) =
           [if n < 10 then CHR '' '' else digit_char (n div 10), digit_char (n mod 10)]"
proof (cases "n < 10")
  case True
  then show ?thesis
    by (simp add: format_2d_def str_int_def rjust_def digits_one)
next
  case False
  then show ?thesis
    using assms by (simp add: format_2d_def str_int_def rjust_def digits_two)
qed

lemma seconds_to_human_time_nat:
  "seconds_to_human_time (int n) =
     (if 3600 \<le> n then
        digits (n div 3600)
          @ [CHR '':'', digit_char (n mod 3600 div 60 div 10), digit_char (n mod 3600 div 60 mod 10),
             CHR '':'', digit_char (n mod 60 div 10), digit_char (n mod 60 mod 10)]
      else if 60 \<le> n then
        [if n div 60 < 10 then CHR '' '' else digit_char (n div 60 div 10),
         digit_char (n div 60 mod 10),
         CHR '':'', digit_char (n mod 60 div 10), digit_char (n mod 60 mod 10)]
      else
        [if n < 10 then CHR '' '' else digit_char (n div 10), digit_char (n mod 10), CHR ''s''])"
proof -
  have h: "int n div 3600 = int (n div 3600)"
    and m: "int n mod 3600 div 60 = int (n mod 3600 div 60)"
    and s: "int n mod 60 = int (n mod 60)"
    by (simp_all add: zdiv_int zmod_int)
  have ms: "n mod 3600 div 60 < 100" "n mod 60 < 100"
    by (simp_all add: less_mult_imp_div_less order_less_trans[OF mod_less_divisor])
  show ?thesis
  proof (cases "3600 \<le> n")
    case True
    then have "n div 3600 \<noteq> 0"
      by (simp add: div_eq_0_iff)
    then show ?thesis
      using True unfolding seconds_to_human_time_def Let_def h m s
      by (simp add: format_02d_nat ms format_d_def str_int_def)
  next
    case False
    then have h0: "n div 3600 = 0" and m0: "n mod 3600 div 60 = n div 60"
      by simp_all
    show ?thesis
    proof (cases "60 \<le> n")
      case True
      then have "n div 60 \<noteq> 0" "n div 60 < 100"
        using False by (simp_all add: div_eq_0_iff less_mult_imp_div_less)
      then show ?thesis
        using True False unfolding seconds_to_human_time_def Let_def h m s h0 m0
        by (simp add: format_02d_nat format_2d_nat ms)
    next
      case n60: False
      then have "n div 60 = 0" "n mod 60 = n" "n < 100"
        by simp_all
      then show ?thesis
        using n60 False unfolding seconds_to_human_time_def Let_def h m s h0 m0
        by (simp add: format_2d_nat)
    qed
  qed
qed

lemma int_div_numeral: "int a div numeral k = int (a div numeral k)"
  by (simp add: zdiv_int)

lemma int_mod_numeral: "int a mod numeral k = int (a mod numeral k)"
  by (simp add: zmod_int)

lemma numeral_le_int: "numeral k \<le> int a \<longleftrightarrow> numeral k \<le> a"
  by simp

lemma int_less_numeral: "int a < numeral k \<longleftrightarrow> a < numeral k"
  by simp

text \<open>
  C2 (amended). For every non-negative \<open>s\<close>: from 3600 on the result is the hours in
  decimal, a colon, the minutes as two digits, a colon and the seconds as two digits;
  from 60 to 3599 it is the minutes right-aligned to width 2, a colon and the seconds as
  two digits; below 60 it is the seconds right-aligned to width 2 (a leading space below
  10) followed by \<open>s\<close>. So 0 gives \<open>" 0s"\<close>, 59 gives \<open>"59s"\<close>, 60 gives \<open>" 1:00"\<close>, 3599
  gives \<open>"59:59"\<close>, 3600 gives \<open>"1:00:00"\<close> and 3661 gives \<open>"1:01:01"\<close>.
\<close>

theorem seconds_to_human_time_shape:
  assumes "0 \<le> s"
  shows "seconds_to_human_time s =
     (if 3600 \<le> s then
        digits (nat (s div 3600))
          @ [CHR '':'', digit_char (nat (s mod 3600 div 60 div 10)),
             digit_char (nat (s mod 3600 div 60 mod 10)),
             CHR '':'', digit_char (nat (s mod 60 div 10)), digit_char (nat (s mod 60 mod 10))]
      else if 60 \<le> s then
        [if s div 60 < 10 then CHR '' '' else digit_char (nat (s div 60 div 10)),
         digit_char (nat (s div 60 mod 10)),
         CHR '':'', digit_char (nat (s mod 60 div 10)), digit_char (nat (s mod 60 mod 10))]
      else
        [if s < 10 then CHR '' '' else digit_char (nat (s div 10)),
         digit_char (nat (s mod 10)), CHR ''s''])
   \<and> seconds_to_human_time 0 = '' 0s'' \<and> seconds_to_human_time 59 = ''59s''
   \<and> seconds_to_human_time 60 = '' 1:00'' \<and> seconds_to_human_time 3599 = ''59:59''
   \<and> seconds_to_human_time 3600 = ''1:00:00'' \<and> seconds_to_human_time 3661 = ''1:01:01''"
proof -
  obtain n where n: "s = int n"
    using assms by (metis nat_0_le)
  have general: "seconds_to_human_time s =
     (if 3600 \<le> s then
        digits (nat (s div 3600))
          @ [CHR '':'', digit_char (nat (s mod 3600 div 60 div 10)),
             digit_char (nat (s mod 3600 div 60 mod 10)),
             CHR '':'', digit_char (nat (s mod 60 div 10)), digit_char (nat (s mod 60 mod 10))]
      else if 60 \<le> s then
        [if s div 60 < 10 then CHR '' '' else digit_char (nat (s div 60 div 10)),
         digit_char (nat (s div 60 mod 10)),
         CHR '':'', digit_char (nat (s mod 60 div 10)), digit_char (nat (s mod 60 mod 10))]
      else
        [if s < 10 then CHR '' '' else digit_char (nat (s div 10)),
         digit_char (nat (s mod 10)), CHR ''s''])"
    by (simp only: n int_div_numeral int_mod_numeral numeral_le_int int_less_numeral nat_int
        seconds_to_human_time_nat)
  have examples: "seconds_to_human_time 0 = '' 0s''" "seconds_to_human_time 59 = ''59s''"
    "seconds_to_human_time 60 = '' 1:00''" "seconds_to_human_time 3599 = ''59:59''"
    "seconds_to_human_time 3600 = ''1:00:00''" "seconds_to_human_time 3661 = ''1:01:01''"
    by (simp_all add: seconds_to_human_time_def format_d_def format_2d_def format_02d_def
        str_int_def rjust_def digits.simps digit_char_def)
  show ?thesis
    using general examples by blast
qed

theorem seconds_to_human_time_shape_witness:
  "(0::int) \<le> 4530 \<and> seconds_to_human_time 4530 = ''1:15:30''
   \<and> seconds_to_human_time 605 = ''10:05'' \<and> seconds_to_human_time 7 = '' 7s''"
  using seconds_to_human_time_shape[of 4530] seconds_to_human_time_shape[of 605]
    seconds_to_human_time_shape[of 7]
  by (simp add: digits.simps digit_char_def)

text \<open>
  C2, as stated, fails below 10 seconds: the result is not the plain integer followed by
  \<open>s\<close>, and 0 is not mapped to \<open>"0s"\<close>.
\<close>

theorem seconds_to_human_time_counterexample:
  "seconds_to_human_time 0 = '' 0s'' \<and> seconds_to_human_time 0 \<noteq> ''0s''
   \<and> seconds_to_human_time 5 = '' 5s''"
  by (simp add: seconds_to_human_time_def format_2d_def str_int_def rjust_def digits.simps
      digit_char_def)


section \<open>Claims about the registry\<close>

lemma people_People_init: "people (People_init ps) = sort_key total_time ps"
  by (simp add: People_init_def Let_def)

lemma use_first_name_People_init:
  "use_first_name_in_plots (People_init ps) \<longleftrightarrow> distinct (map name ps)"
proof -
  have "card (set (map name ps)) = length (map name ps) \<longleftrightarrow> distinct (map name ps)"
    using card_distinct distinct_card by blast
  then show ?thesis
    by (simp add: People_init_def Let_def)
qed

text \<open>
  C4. The registry built by \<^verbatim>\<open>People.__init__\<close> is in ascending order of total time: a
  participant at an earlier position never has a larger total time than one at a later
  position. Participants with equal total times keep the order of the input, and the
  registry holds exactly the participants of the input.
\<close>

theorem People_init_sorted_stable:
  "(\<forall>i j. i < j \<and> j < length (people (People_init ps)) \<longrightarrow>
       total_time (people (People_init ps) ! i) \<le> total_time (people (People_init ps) ! j))
   \<and> (\<forall>t. filter (\<lambda>p. total_time p = t) (people (People_init ps))
           = filter (\<lambda>p. total_time p = t) ps)
   \<and> mset (people (People_init ps)) = mset ps"
proof -
  let ?qs = "sort_key total_time ps"
  have "sorted (map total_time ?qs)"
    by (rule sorted_sort_key)
  then have "\<forall>i j. i < j \<longrightarrow> j < length (map total_time ?qs) \<longrightarrow>
      map total_time ?qs ! i \<le> map total_time ?qs ! j"
    by (simp only: sorted_iff_nth_mono_less)
  then have ordered: "\<forall>i j. i < j \<and> j < length ?qs \<longrightarrow> total_time (?qs ! i) \<le> total_time (?qs ! j)"
    by simp
  have stable: "\<forall>t. filter (\<lambda>p. total_time p = t) ?qs = filter (\<lambda>p. total_time p = t) ps"
    by (simp add: sort_key_stable)
  have "mset ?qs = mset ps"
    by simp
  then show ?thesis
    using ordered stable unfolding people_People_init by blast
qed

theorem People_init_sorted_stable_witness:
  "people (People_init [person_643, person_645, person_644]) = [person_644, person_643, person_645]
   \<and> total_time person_643 = total_time person_645
   \<and> (0::nat) < 1 \<and> 1 < length (people (People_init [person_643, person_645, person_644]))
   \<and> total_time (people (People_init [person_643, person_645, person_644]) ! 0)
       \<le> total_time (people (People_init [person_643, person_645, person_644]) ! 1)"
  using People_init_sorted_stable[of "[person_643, person_645, person_644]"]
  by (simp add: people_People_init person_643_def person_644_def person_645_def hms_def
      total_time_def datetime_sub_def timedelta_new_def secs_def)

lemma split_space_nonempty: "split_space s \<noteq> []"
  by (cases s) (simp_all split: list.splits)

lemma split_space_first:
  "split_space s = w # ws \<Longrightarrow> w = takeWhile (\<lambda>c. c \<noteq> CHR '' '') s"
proof (induction s arbitrary: w ws)
  case Nil
  then show ?case by simp
next
  case (Cons c cs)
  show ?case
  proof (cases "c = CHR '' ''")
    case True
    then show ?thesis using Cons.prems by simp
  next
    case False
    then obtain v vs where v: "split_space cs = v # vs" "w = c # v"
      using Cons.prems split_space_nonempty[of cs] by (auto split: list.splits)
    then show ?thesis
      using False Cons.IH[OF v(1)] by simp
  qed
qed

lemma Person_init_names:
  assumes "Person_init strptime nm rn st p1 p2 p3 fi tf = Inr q"
  shows "nm = PyStr (name q) \<and> first_name q = takeWhile (\<lambda>c. c \<noteq> CHR '' '') (name q)"
proof -
  obtain full where full: "nm = PyStr full"
    using assms by (cases nm) (simp_all add: Person_init_def)
  obtain w ws where w: "split_space full = w # ws"
    using assms full by (cases "split_space full") (simp_all add: Person_init_def)
  have "name q = full \<and> first_name q = w"
    using assms by (auto simp: Person_init_def full w bind_exc_def split: sum.splits)
  then show ?thesis
    using full split_space_first[OF w] by simp
qed

text \<open>
  C6. \<^verbatim>\<open>use_first_name_in_plots\<close> holds exactly when the names of the participants are
  pairwise distinct. For a participant built by \<^verbatim>\<open>Person.__init__\<close> the name put on
  the plots is then the part of the full name before its first space, and the full name
  otherwise. Two participants both named Alex Smith make the flag false and are both
  shown with the full name.
\<close>

theorem use_first_name_iff_distinct:
  "(use_first_name_in_plots (People_init ps) \<longleftrightarrow> distinct (map name ps))
   \<and> (Person_init strptime nm rn st p1 p2 p3 fi tf = Inr q \<longrightarrow>
        plot_name (People_init ps) q =
          (if distinct (map name ps) then takeWhile (\<lambda>c. c \<noteq> CHR '' '') (name q) else name q))
   \<and> (name a = ''Alex Smith'' \<and> name b = ''Alex Smith'' \<longrightarrow>
        \<not> use_first_name_in_plots (People_init [a, b])
        \<and> plot_name (People_init [a, b]) a = ''Alex Smith''
        \<and> plot_name (People_init [a, b]) b = ''Alex Smith'')"
proof -
  have built: "plot_name (People_init ps) q =
      (if distinct (map name ps) then takeWhile (\<lambda>c. c \<noteq> CHR '' '') (name q) else name q)"
    if "Person_init strptime nm rn st p1 p2 p3 fi tf = Inr q"
    using Person_init_names[OF that] by (simp add: plot_name_def use_first_name_People_init)
  have twins: "\<not> use_first_name_in_plots (People_init [a, b])
      \<and> plot_name (People_init [a, b]) a = ''Alex Smith''
      \<and> plot_name (People_init [a, b]) b = ''Alex Smith''"
    if "name a = ''Alex Smith''" "name b = ''Alex Smith''"
    using that by (simp add: plot_name_def use_first_name_People_init)
  show ?thesis
    using built twins use_first_name_People_init[of ps] by blast
qed

theorem use_first_name_iff_distinct_witness:
  "Person_init sample_strptime (PyStr ''Alex Smith'') (PyInt 643) (PyStr ''08:00:00'')
       (PyStr ''09:15:30'') (PyStr ''10:40:00'') (PyStr ''12:05:10'') (PyStr ''13:30:00'')
       (PyStr ''%H:%M:%S'') = Inr person_643
   \<and> use_first_name_in_plots (People_init [person_643, person_644])
   \<and> plot_name (People_init [person_643, person_644]) person_643 = ''Alex''
   \<and> name person_643 = ''Alex Smith'' \<and> name person_646 = ''Alex Smith''
   \<and> \<not> use_first_name_in_plots (People_init [person_643, person_646])
   \<and> plot_name (People_init [person_643, person_646]) person_643 = ''Alex Smith''
   \<and> plot_name (People_init [person_643, person_646]) person_646 = ''Alex Smith''"
proof -
  have built: "Person_init sample_strptime (PyStr ''Alex Smith'') (PyInt 643) (PyStr ''08:00:00'')
       (PyStr ''09:15:30'') (PyStr ''10:40:00'') (PyStr ''12:05:10'') (PyStr ''13:30:00'')
       (PyStr ''%H:%M:%S'') = Inr person_643"
    by (simp add: Person_init_def strptime_val_def sample_strptime_def two_digit_val_def
        digit_val_def bind_exc_def person_643_def)
  have names: "name person_643 = ''Alex Smith''" "name person_644 = ''Sam Jones''"
    "name person_646 = ''Alex Smith''"
    by (simp_all add: person_643_def person_644_def person_646_def)
  show ?thesis
    using built names
      use_first_name_iff_distinct[of "[person_643, person_644]" sample_strptime
        "PyStr ''Alex Smith''" "PyInt 643" "PyStr ''08:00:00''" "PyStr ''09:15:30''"
        "PyStr ''10:40:00''" "PyStr ''12:05:10''" "PyStr ''13:30:00''" "PyStr ''%H:%M:%S''"
        person_643 person_643 person_646]
    by simp
qed


section \<open>Claims about the gap to the leader\<close>

lemma py_min_Min:
  assumes "tms \<noteq> []"
  shows "py_min tms = Inr (Min (set tms))"
proof (cases tms)
  case Nil
  with assms show ?thesis by simp
next
  case (Cons t rest)
  show ?thesis
    by (simp only: Cons py_min.simps Min.set_eq_fold)
qed

lemma py_max_Max:
  assumes "tms \<noteq> []"
  shows "py_max tms = Inr (Max (set tms))"
proof (cases tms)
  case Nil
  with assms show ?thesis by simp
next
  case (Cons t rest)
  show ?thesis
    by (simp only: Cons py_max.simps Max.set_eq_fold)
qed

lemma total_bars_times: "\<exists>bars. total_bars self i ps = (map total_time ps, bars)"
proof (induction ps arbitrary: i)
  case Nil
  show ?case by simp
next
  case (Cons p ps)
  obtain bars where "total_bars self (Suc i) ps = (map total_time ps, bars)"
    using Cons.IH by blast
  then show ?case
    by (simp add: Let_def)
qed

lemma total_texts_ok:
  assumes "py_min tms = Inr m"
  shows "\<exists>calls. total_texts tms i ps = Inr calls
     \<and> (\<forall>j<length ps.
          Text (i + j) (total_time (ps ! j)) (seconds_to_human_time (total_time (ps ! j)))
            \<in> set calls
          \<and> (total_time (ps ! j) \<noteq> m \<longrightarrow>
               Text (i + j) (total_time (ps ! j))
                 (CHR ''+'' # seconds_to_human_time (total_time (ps ! j) - m)) \<in> set calls))"
proof (induction ps arbitrary: i)
  case Nil
  show ?case by simp
next
  case (Cons p ps)
  obtain calls where c: "total_texts tms (Suc i) ps = Inr calls"
    and rest: "\<And>j. j < length ps \<Longrightarrow>
          Text (Suc i + j) (total_time (ps ! j)) (seconds_to_human_time (total_time (ps ! j)))
            \<in> set calls
          \<and> (total_time (ps ! j) \<noteq> m \<longrightarrow>
               Text (Suc i + j) (total_time (ps ! j))
                 (CHR ''+'' # seconds_to_human_time (total_time (ps ! j) - m)) \<in> set calls)"
    using Cons.IH[of "Suc i"] by blast
  let ?here = "Text i (total_time p) (seconds_to_human_time (total_time p))
      # (if total_time p = m then []
         else [Text i (total_time p) (CHR ''+'' # seconds_to_human_time (total_time p - m))])"
  have eq: "total_texts tms i (p # ps) = Inr (?here @ calls)"
    by (simp add: assms c bind_exc_def Let_def)
  have "Text (i + j) (total_time ((p # ps) ! j))
            (seconds_to_human_time (total_time ((p # ps) ! j))) \<in> set (?here @ calls)
        \<and> (total_time ((p # ps) ! j) \<noteq> m \<longrightarrow>
             Text (i + j) (total_time ((p # ps) ! j))
               (CHR ''+'' # seconds_to_human_time (total_time ((p # ps) ! j) - m))
               \<in> set (?here @ calls))"
    if "j < length (p # ps)" for j
  proof (cases j)
    case 0
    then show ?thesis by simp
  next
    case (Suc k)
    then have "k < length ps"
      using that by simp
    from rest[OF this] show ?thesis
      using Suc by simp
  qed
  then show ?case
    using eq by blast
qed

lemma leg_bars_ok:
  assumes "n \<in> {1, 2, 3, 4}"
  shows "\<exists>ts bars. leg_bars self n ps = Inr (ts, bars) \<and> map (\<lambda>p. get_leg_time p n) ps = map Inr ts"
proof (induction ps)
  case Nil
  show ?case by simp
next
  case (Cons p ps)
  then obtain ts bars where r: "leg_bars self n ps = Inr (ts, bars)"
    "map (\<lambda>p. get_leg_time p n) ps = map Inr ts"
    by blast
  obtain v where v: "get_leg_time p n = Inr v"
    using assms by (auto simp: get_leg_time_def)
  have "leg_bars self n (p # ps) = Inr (v # ts, Bar (plot_name self p) v # bars)"
    by (simp add: v r bind_exc_def)
  moreover have "map (\<lambda>p. get_leg_time p n) (p # ps) = map Inr (v # ts)"
    by (simp add: v r)
  ultimately show ?case
    by blast
qed

lemma leg_texts_ok:
  assumes "py_min tms = Inr m"
  shows "map (\<lambda>p. get_leg_time p n) ps = map Inr ts \<Longrightarrow>
    \<exists>calls. leg_texts tms n i ps = Inr calls
     \<and> (\<forall>j<length ts.
          Text (i + j) (ts ! j) (seconds_to_human_time (ts ! j)) \<in> set calls
          \<and> (ts ! j \<noteq> m \<longrightarrow>
               Text (i + j) (ts ! j) (CHR ''+'' # seconds_to_human_time (ts ! j - m))
                 \<in> set calls))"
proof (induction ps arbitrary: i ts)
  case Nil
  then show ?case by simp
next
  case (Cons p ps)
  then obtain v vs where ts: "ts = v # vs" and v: "get_leg_time p n = Inr v"
    and vs: "map (\<lambda>p. get_leg_time p n) ps = map Inr vs"
    by (cases ts) auto
  obtain calls where c: "leg_texts tms n (Suc i) ps = Inr calls"
    and rest: "\<And>j. j < length vs \<Longrightarrow>
          Text (Suc i + j) (vs ! j) (seconds_to_human_time (vs ! j)) \<in> set calls
          \<and> (vs ! j \<noteq> m \<longrightarrow>
               Text (Suc i + j) (vs ! j) (CHR ''+'' # seconds_to_human_time (vs ! j - m))
                 \<in> set calls)"
    using Cons.IH[OF vs, of "Suc i"] by blast
  let ?here = "Text i v (seconds_to_human_time v)
      # (if v = m then [] else [Text i v (CHR ''+'' # seconds_to_human_time (v - m))])"
  have eq: "leg_texts tms n i (p # ps) = Inr (?here @ calls)"
    by (simp add: assms c v bind_exc_def)
  have "Text (i + j) (ts ! j) (seconds_to_human_time (ts ! j)) \<in> set (?here @ calls)
        \<and> (ts ! j \<noteq> m \<longrightarrow>
             Text (i + j) (ts ! j) (CHR ''+'' # seconds_to_human_time (ts ! j - m))
               \<in> set (?here @ calls))"
    if "j < length ts" for j
  proof (cases j)
    case 0
    then show ?thesis by (simp add: ts)
  next
    case (Suc k)
    then have "k < length vs"
      using that ts by simp
    from rest[OF this] show ?thesis
      using Suc by (simp add: ts)
  qed
  then show ?case
    using eq by blast
qed

text \<open>
  C8. The minimum over the registry is taken by \<^verbatim>\<open>min(times)\<close> in the two bar charts.
  On an empty registry both charts fail with the \<open>ValueError\<close> of \<^verbatim>\<open>min\<close> on an empty
  sequence. On a non-empty registry the total chart succeeds, its limits are the minimum
  and the maximum of the total times of all participants, and every participant gets
  its time and, unless it has the minimum, the gap to the minimum; the same holds for
  the chart of each leg 1 to 4 with the leg times.
\<close>

theorem best_is_minimum_or_empty_error:
  "(people P = [] \<longrightarrow>
      plot_total_as_bar P = Inl (ValueError ''min() arg is an empty sequence'')
      \<and> plot_leg_as_bar P n = Inl (ValueError ''min() arg is an empty sequence''))
   \<and> (people P \<noteq> [] \<longrightarrow>
        (\<exists>calls. plot_total_as_bar P = Inr calls
           \<and> last calls = SetLim (Min (total_time ` set (people P)))
                                 (Max (total_time ` set (people P)))
           \<and> (\<forall>j<length (people P).
                 Text j (total_time (people P ! j))
                   (seconds_to_human_time (total_time (people P ! j))) \<in> set calls
                 \<and> (total_time (people P ! j) \<noteq> Min (total_time ` set (people P)) \<longrightarrow>
                      Text j (total_time (people P ! j))
                        (CHR ''+'' # seconds_to_human_time
                           (total_time (people P ! j) - Min (total_time ` set (people P))))
                        \<in> set calls))))
   \<and> (people P \<noteq> [] \<and> n \<in> {1, 2, 3, 4} \<longrightarrow>
        (\<exists>ts calls. map (\<lambda>p. get_leg_time p n) (people P) = map Inr ts
           \<and> plot_leg_as_bar P n = Inr calls
           \<and> last calls = SetLim (Min (set ts)) (Max (set ts))
           \<and> (\<forall>j<length ts.
                 Text j (ts ! j) (seconds_to_human_time (ts ! j)) \<in> set calls
                 \<and> (ts ! j \<noteq> Min (set ts) \<longrightarrow>
                      Text j (ts ! j) (CHR ''+'' # seconds_to_human_time (ts ! j - Min (set ts)))
                        \<in> set calls))))"
proof (intro conjI impI)
  assume "people P = []"
  then show "plot_total_as_bar P = Inl (ValueError ''min() arg is an empty sequence'')"
    by (simp add: plot_total_as_bar_def bind_exc_def)
next
  assume "people P = []"
  then show "plot_leg_as_bar P n = Inl (ValueError ''min() arg is an empty sequence'')"
    by (simp add: plot_leg_as_bar_def bind_exc_def)
next
  assume ne: "people P \<noteq> []"
  let ?ps = "people P"
  let ?tms = "map total_time ?ps"
  obtain bars where b: "total_bars P 0 ?ps = (?tms, bars)"
    using total_bars_times[of P 0 ?ps] by blast
  have nonempty: "?tms \<noteq> []"
    using ne by simp
  have lo: "py_min ?tms = Inr (Min (total_time ` set ?ps))"
    and hi: "py_max ?tms = Inr (Max (total_time ` set ?ps))"
    using py_min_Min[OF nonempty] py_max_Max[OF nonempty] by simp_all
  obtain texts where t: "total_texts ?tms 0 ?ps = Inr texts"
    and each: "\<forall>j<length ?ps.
          Text (0 + j) (total_time (?ps ! j)) (seconds_to_human_time (total_time (?ps ! j)))
            \<in> set texts
          \<and> (total_time (?ps ! j) \<noteq> Min (total_time ` set ?ps) \<longrightarrow>
               Text (0 + j) (total_time (?ps ! j))
                 (CHR ''+'' # seconds_to_human_time
                    (total_time (?ps ! j) - Min (total_time ` set ?ps))) \<in> set texts)"
    using total_texts_ok[OF lo, of 0 ?ps] by blast
  let ?calls = "bars @ texts @ [SetLim (Min (total_time ` set ?ps)) (Max (total_time ` set ?ps))]"
  have run: "plot_total_as_bar P = Inr ?calls"
    by (simp add: plot_total_as_bar_def b t lo hi bind_exc_def)
  have "last ?calls = SetLim (Min (total_time ` set ?ps)) (Max (total_time ` set ?ps))"
    by simp
  moreover have "\<forall>j<length ?ps.
          Text j (total_time (?ps ! j)) (seconds_to_human_time (total_time (?ps ! j)))
            \<in> set ?calls
          \<and> (total_time (?ps ! j) \<noteq> Min (total_time ` set ?ps) \<longrightarrow>
               Text j (total_time (?ps ! j))
                 (CHR ''+'' # seconds_to_human_time
                    (total_time (?ps ! j) - Min (total_time ` set ?ps))) \<in> set ?calls)"
    using each by simp
  ultimately show "\<exists>calls. plot_total_as_bar P = Inr calls
           \<and> last calls = SetLim (Min (total_time ` set (people P)))
                                 (Max (total_time ` set (people P)))
           \<and> (\<forall>j<length (people P).
                 Text j (total_time (people P ! j))
                   (seconds_to_human_time (total_time (people P ! j))) \<in> set calls
                 \<and> (total_time (people P ! j) \<noteq> Min (total_time ` set (people P)) \<longrightarrow>
                      Text j (total_time (people P ! j))
                        (CHR ''+'' # seconds_to_human_time
                           (total_time (people P ! j) - Min (total_time ` set (people P))))
                        \<in> set calls))"
    using run by blast
next
  assume a: "people P \<noteq> [] \<and> n \<in> {1, 2, 3, 4}"
  let ?ps = "people P"
  obtain ts bars where b: "leg_bars P n ?ps = Inr (ts, bars)"
    and ts: "map (\<lambda>p. get_leg_time p n) ?ps = map Inr ts"
    using leg_bars_ok[of n P ?ps] a by blast
  have "length ts = length ?ps"
    using ts by (metis length_map)
  then have nonempty: "ts \<noteq> []"
    using a by auto
  note lo = py_min_Min[OF nonempty] and hi = py_max_Max[OF nonempty]
  obtain texts where t: "leg_texts ts n 0 ?ps = Inr texts"
    and each: "\<forall>j<length ts.
          Text (0 + j) (ts ! j) (seconds_to_human_time (ts ! j)) \<in> set texts
          \<and> (ts ! j \<noteq> Min (set ts) \<longrightarrow>
               Text (0 + j) (ts ! j) (CHR ''+'' # seconds_to_human_time (ts ! j - Min (set ts)))
                 \<in> set texts)"
    using leg_texts_ok[OF lo ts, of 0] by blast
  let ?calls = "bars @ texts @ [SetLim (Min (set ts)) (Max (set ts))]"
  have run: "plot_leg_as_bar P n = Inr ?calls"
    by (simp add: plot_leg_as_bar_def b t lo hi bind_exc_def)
  have "last ?calls = SetLim (Min (set ts)) (Max (set ts))"
    by simp
  moreover have "\<forall>j<length ts.
          Text j (ts ! j) (seconds_to_human_time (ts ! j)) \<in> set ?calls
          \<and> (ts ! j \<noteq> Min (set ts) \<longrightarrow>
               Text j (ts ! j) (CHR ''+'' # seconds_to_human_time (ts ! j - Min (set ts)))
                 \<in> set ?calls)"
    using each by simp
  ultimately show "\<exists>ts calls. map (\<lambda>p. get_leg_time p n) (people P) = map Inr ts
           \<and> plot_leg_as_bar P n = Inr calls
           \<and> last calls = SetLim (Min (set ts)) (Max (set ts))
           \<and> (\<forall>j<length ts.
                 Text j (ts ! j) (seconds_to_human_time (ts ! j)) \<in> set calls
                 \<and> (ts ! j \<noteq> Min (set ts) \<longrightarrow>
                      Text j (ts ! j) (CHR ''+'' # seconds_to_human_time (ts ! j - Min (set ts)))
                        \<in> set calls))"
    using run ts by blast
qed


theorem best_is_minimum_or_empty_error_witness:
  "people (People_init []) = []
   \<and> plot_total_as_bar (People_init []) = Inl (ValueError ''min() arg is an empty sequence'')
   \<and> plot_leg_as_bar (People_init []) 1 = Inl (ValueError ''min() arg is an empty sequence'')
   \<and> people (People_init [person_643, person_644]) \<noteq> []
   \<and> plot_total_as_bar (People_init [person_643, person_644]) =
       Inr [Barh ''Sam'' 19200 ''C0'', Barh ''Alex'' 19800 ''C1'',
            Text 0 19200 ''5:20:00'', Text 1 19800 ''5:30:00'', Text 1 19800 ''+10:00'',
            SetLim 19200 19800]
   \<and> plot_leg_as_bar (People_init [person_643, person_644]) 1 =
       Inr [Bar ''Sam'' 4200, Bar ''Alex'' 4530,
            Text 0 4200 ''1:10:00'', Text 1 4530 ''1:15:30'', Text 1 4530 ''+ 5:30'',
            SetLim 4200 4530]"
proof -
  have t: "total_time person_643 = 19800" "total_time person_644 = 19200"
    "get_leg_time person_643 1 = Inr 4530" "get_leg_time person_644 1 = Inr 4200"
    by (simp_all add: person_643_def person_644_def hms_def total_time_def get_leg_time_def
        datetime_sub_def timedelta_new_def secs_def)
  have registry: "People_init [person_643, person_644]
      = \<lparr>people = [person_644, person_643], use_first_name_in_plots = True\<rparr>"
    by (simp add: People_init_def t) (simp add: person_643_def person_644_def)
  have names: "first_name person_643 = ''Alex''" "first_name person_644 = ''Sam''"
    by (simp_all add: person_643_def person_644_def)
  have fmt: "seconds_to_human_time 19200 = ''5:20:00''" "seconds_to_human_time 19800 = ''5:30:00''"
    "seconds_to_human_time 600 = ''10:00''" "seconds_to_human_time 4200 = ''1:10:00''"
    "seconds_to_human_time 4530 = ''1:15:30''" "seconds_to_human_time 330 = '' 5:30''"
    by (simp_all add: seconds_to_human_time_def format_d_def format_2d_def format_02d_def
        str_int_def rjust_def digits.simps digit_char_def)
  have total: "plot_total_as_bar (People_init [person_643, person_644]) =
       Inr [Barh ''Sam'' 19200 ''C0'', Barh ''Alex'' 19800 ''C1'',
            Text 0 19200 ''5:20:00'', Text 1 19800 ''5:30:00'', Text 1 19800 ''+10:00'',
            SetLim 19200 19800]"
    by (simp add: registry plot_total_as_bar_def plot_name_def names t fmt bind_exc_def
        str_int_def digits.simps digit_char_def)
  have leg: "plot_leg_as_bar (People_init [person_643, person_644]) 1 =
       Inr [Bar ''Sam'' 4200, Bar ''Alex'' 4530,
            Text 0 4200 ''1:10:00'', Text 1 4530 ''1:15:30'', Text 1 4530 ''+ 5:30'',
            SetLim 4200 4530]"
    by (simp add: registry plot_leg_as_bar_def plot_name_def names t fmt bind_exc_def)
  have empty: "people (People_init []) = []"
    by (simp add: People_init_def)
  have nonempty: "people (People_init [person_643, person_644]) \<noteq> []"
    by (simp add: registry)
  show ?thesis
    using best_is_minimum_or_empty_error[of "People_init []" 1]
      best_is_minimum_or_empty_error[of "People_init [person_643, person_644]" 1]
      empty nonempty total leg
    by simp
qed


section \<open>The stub site, evaluated\<close>

lemma search_urls:
  "search_results_page_url Jurassic_Coast 643
     = ''https://results.resultsbase.net/Search.aspx?CId=8&RId=20440&S=643''"
  "search_results_page_url Jurassic_Coast 644
     = ''https://results.resultsbase.net/Search.aspx?CId=8&RId=20440&S=644''"
  "search_results_page_url Jurassic_Coast 645
     = ''https://results.resultsbase.net/Search.aspx?CId=8&RId=20440&S=645''"
  "search_results_page_url Jurassic_Coast 646
     = ''https://results.resultsbase.net/Search.aspx?CId=8&RId=20440&S=646''"
  "search_results_page_url Jurassic_Coast 647
     = ''https://results.resultsbase.net/Search.aspx?CId=8&RId=20440&S=647''"
  "search_results_page_url Jurassic_Coast 648
     = ''https://results.resultsbase.net/Search.aspx?CId=8&RId=20440&S=648''"
  by (simp_all add: search_results_page_url_def base_url_def str_int_def digits.simps
      digit_char_def)

lemma locate_search_page:
  "locate (search_page ((person_name, href) # others)) = Inr (person_name, base_url @ href)"
  "locate (search_page []) = Inl IndexError"
  by (simp_all add: locate_def search_page_def find_tag_def find_all_def find_all_with_def
      get_item_def bind_exc_def)


lemma normalise_key_labels:
  "normalise_key ''Start'' = ''start''" "normalise_key ''Pitstop 1'' = ''pitstop_1''"
  "normalise_key ''Pitstop 2'' = ''pitstop_2''" "normalise_key ''Pitstop 3'' = ''pitstop_3''"
  "normalise_key ''Finish'' = ''finish''" "normalise_key ''Gun Time'' = ''gun_time''"
  by (simp_all add: normalise_key_def lower_char_def)

lemma parse_timings_stub:
  "parse_timings person_name rn (detail_page timings_643) =
     Inr [(''name'', PyStr person_name), (''race_number'', PyInt rn),
          (''start'', PyStr ''08:00:00''), (''pitstop_1'', PyStr ''09:15:30''),
          (''pitstop_2'', PyStr ''10:40:00''), (''pitstop_3'', PyStr ''12:05:10''),
          (''finish'', PyStr ''13:30:00'')]"
  "parse_timings person_name rn (detail_page timings_644) =
     Inr [(''name'', PyStr person_name), (''race_number'', PyInt rn),
          (''start'', PyStr ''08:00:00''), (''pitstop_1'', PyStr ''09:10:00''),
          (''pitstop_2'', PyStr ''10:35:00''), (''pitstop_3'', PyStr ''12:00:00''),
          (''finish'', PyStr ''13:20:00'')]"
  "parse_timings person_name rn (detail_page (butlast timings_643)) =
     Inr [(''name'', PyStr person_name), (''race_number'', PyInt rn),
          (''start'', PyStr ''08:00:00''), (''pitstop_1'', PyStr ''09:15:30''),
          (''pitstop_2'', PyStr ''10:40:00''), (''pitstop_3'', PyStr ''12:05:10'')]"
  "parse_timings person_name rn (detail_page (timings_643 @ [(''Gun Time'', ''05:30:00'')])) =
     Inr [(''name'', PyStr person_name), (''race_number'', PyInt rn),
          (''start'', PyStr ''08:00:00''), (''pitstop_1'', PyStr ''09:15:30''),
          (''pitstop_2'', PyStr ''10:40:00''), (''pitstop_3'', PyStr ''12:05:10''),
          (''finish'', PyStr ''13:30:00''), (''gun_time'', PyStr ''05:30:00'')]"
  by (simp_all add: parse_timings_def detail_page_def timings_643_def timings_644_def
      find_tag_def find_all_def normalise_key_labels)

lemma sample_strptime_values:
  "sample_strptime ''08:00:00'' ''%H:%M:%S'' = Inr (hms 8 0 0)"
  "sample_strptime ''09:15:30'' ''%H:%M:%S'' = Inr (hms 9 15 30)"
  "sample_strptime ''10:40:00'' ''%H:%M:%S'' = Inr (hms 10 40 0)"
  "sample_strptime ''12:05:10'' ''%H:%M:%S'' = Inr (hms 12 5 10)"
  "sample_strptime ''13:30:00'' ''%H:%M:%S'' = Inr (hms 13 30 0)"
  "sample_strptime ''09:10:00'' ''%H:%M:%S'' = Inr (hms 9 10 0)"
  "sample_strptime ''10:35:00'' ''%H:%M:%S'' = Inr (hms 10 35 0)"
  "sample_strptime ''12:00:00'' ''%H:%M:%S'' = Inr (hms 12 0 0)"
  "sample_strptime ''13:20:00'' ''%H:%M:%S'' = Inr (hms 13 20 0)"
  by (simp_all add: sample_strptime_def two_digit_val_def digit_val_def)

lemma stub_site_results:
  "generate_person_from_race_nubmer sample_strptime sample_fetch Jurassic_Coast 643
     = Inr person_643"
  "generate_person_from_race_nubmer sample_strptime sample_fetch Jurassic_Coast 644
     = Inr person_644"
  "generate_person_from_race_nubmer sample_strptime sample_fetch Jurassic_Coast 645
     = Inl (RuntimeError ''Could not find relevant data for race_number 645.'')"
  "generate_person_from_race_nubmer sample_strptime sample_fetch Jurassic_Coast 646
     = Inl (RuntimeError ''Could not find relevant data for race_number 646.'')"
  "generate_person_from_race_nubmer sample_strptime sample_fetch Jurassic_Coast 647
     = Inr (person_643\<lparr>race_number := PyInt 647\<rparr>)"
  "generate_person_from_race_nubmer sample_strptime sample_fetch Jurassic_Coast 648
     = Inl (RuntimeError ''Could not find relevant data for race_number 648.'')"
  by (simp_all add: generate_person_from_race_nubmer_def try_body_def search_urls sample_fetch_def
      locate_search_page base_url_def parse_timings_stub Person_call_def Person_params_def
      kwarg_def Person_init_def strptime_val_def sample_strptime_values bind_exc_def
      person_643_def person_644_def str_int_def digits.simps digit_char_def)


section \<open>Claims about the result extractor\<close>

lemma find_all_with_attr: "h \<in> set (find_all_with nm k n) \<Longrightarrow> \<exists>v. attr h k = Some v"
  by (auto simp: find_all_with_def)

lemma find_all_with_none: "find_all nm [] n = [] \<Longrightarrow> find_all_with nm k n = []"
  by (auto simp: find_all_def find_all_with_def filter_empty_conv)

lemma generate_person_error:
  assumes "generate_person_from_race_nubmer strptime fetch loc rn = Inl e"
  shows "e = RuntimeError (''Could not find relevant data for race_number '' @ str_int rn @ ''.'')"
  using assms by (auto simp: generate_person_from_race_nubmer_def split: sum.splits)

lemma generate_person_fails:
  assumes "try_body strptime fetch loc rn = Inl e"
  shows "generate_person_from_race_nubmer strptime fetch loc rn =
    Inl (RuntimeError (''Could not find relevant data for race_number '' @ str_int rn @ ''.''))"
  using assms by (simp add: generate_person_from_race_nubmer_def)

text \<open>
  C9 (amended). In the Locate stage the extraction fails, with the one error that names
  the race number, when the search results table is absent, when the table holds no
  anchor, or when none of its anchors has a link. Otherwise it succeeds with the text of
  the first anchor as display name and the link of the first anchor that has one,
  however many rows the table holds.
\<close>

theorem locate_takes_first_anchor:
  "(find_tag ''table'' [(''id'', ''ctl00_Content_Main_grdSearch'')] soup = None \<longrightarrow>
      locate soup = Inl AttributeError)
   \<and> (find_tag ''table'' [(''id'', ''ctl00_Content_Main_grdSearch'')] soup = Some result
        \<and> find_all ''a'' [] result = [] \<longrightarrow> locate soup = Inl IndexError)
   \<and> (find_tag ''table'' [(''id'', ''ctl00_Content_Main_grdSearch'')] soup = Some result
        \<and> find_all_with ''a'' ''href'' result = [] \<longrightarrow> locate soup = Inl IndexError)
   \<and> (find_tag ''table'' [(''id'', ''ctl00_Content_Main_grdSearch'')] soup = Some result
        \<and> find_all ''a'' [] result = a # others
        \<and> find_all_with ''a'' ''href'' result = h # hs \<longrightarrow>
          (\<exists>link. attr h ''href'' = Some link
             \<and> locate soup = Inr (get_text a, base_url @ link)))
   \<and> (fetch (search_results_page_url loc rn) = Inr soup \<and> locate soup = Inl e \<longrightarrow>
        generate_person_from_race_nubmer strptime fetch loc rn =
          Inl (RuntimeError (''Could not find relevant data for race_number '' @ str_int rn @ ''.'')))"
proof (intro conjI impI)
  assume "find_tag ''table'' [(''id'', ''ctl00_Content_Main_grdSearch'')] soup = None"
  then show "locate soup = Inl AttributeError"
    by (simp add: locate_def)
next
  assume "find_tag ''table'' [(''id'', ''ctl00_Content_Main_grdSearch'')] soup = Some result
      \<and> find_all ''a'' [] result = []"
  then show "locate soup = Inl IndexError"
    by (simp add: locate_def)
next
  assume "find_tag ''table'' [(''id'', ''ctl00_Content_Main_grdSearch'')] soup = Some result
      \<and> find_all_with ''a'' ''href'' result = []"
  then show "locate soup = Inl IndexError"
    by (simp add: locate_def split: list.splits)
next
  assume a: "find_tag ''table'' [(''id'', ''ctl00_Content_Main_grdSearch'')] soup = Some result
      \<and> find_all ''a'' [] result = a # others
      \<and> find_all_with ''a'' ''href'' result = h # hs"
  then have "h \<in> set (find_all_with ''a'' ''href'' result)"
    by simp
  then obtain link where link: "attr h ''href'' = Some link"
    using find_all_with_attr by blast
  have "locate soup = Inr (get_text a, base_url @ link)"
    using a by (simp add: locate_def get_item_def link bind_exc_def)
  then show "\<exists>link. attr h ''href'' = Some link \<and> locate soup = Inr (get_text a, base_url @ link)"
    using link by blast
next
  assume "fetch (search_results_page_url loc rn) = Inr soup \<and> locate soup = Inl e"
  then have "try_body strptime fetch loc rn = Inl e"
    by (simp add: try_body_def bind_exc_def)
  then show "generate_person_from_race_nubmer strptime fetch loc rn =
      Inl (RuntimeError (''Could not find relevant data for race_number '' @ str_int rn @ ''.''))"
    by (rule generate_person_fails)
qed

theorem locate_takes_first_anchor_witness:
  "find_tag ''table'' [(''id'', ''ctl00_Content_Main_grdSearch'')] (Element ''[document]'' [] [])
     = None
   \<and> locate (Element ''[document]'' [] []) = Inl AttributeError
   \<and> sample_fetch (search_results_page_url Jurassic_Coast 648) = Inr (search_page [])
   \<and> locate (search_page []) = Inl IndexError
   \<and> generate_person_from_race_nubmer sample_strptime sample_fetch Jurassic_Coast 648
       = Inl (RuntimeError ''Could not find relevant data for race_number 648.'')
   \<and> find_all ''a'' [] (Element ''table'' [(''id'', ''ctl00_Content_Main_grdSearch'')]
         [Element ''a'' [] [NavigableString ''Alex Smith''],
          Element ''a'' [(''href'', ''Details.aspx?id=643'')] [NavigableString ''details'']])
       = [Element ''a'' [] [NavigableString ''Alex Smith''],
          Element ''a'' [(''href'', ''Details.aspx?id=643'')] [NavigableString ''details'']]
   \<and> locate (Element ''[document]'' []
         [Element ''table'' [(''id'', ''ctl00_Content_Main_grdSearch'')]
            [Element ''a'' [] [NavigableString ''Alex Smith''],
             Element ''a'' [(''href'', ''Details.aspx?id=643'')] [NavigableString ''details'']]])
       = Inr (''Alex Smith'', base_url @ ''Details.aspx?id=643'')"
proof -
  let ?plain = "Element ''a'' [] [NavigableString ''Alex Smith'']"
  let ?linked = "Element ''a'' [(''href'', ''Details.aspx?id=643'')] [NavigableString ''details'']"
  let ?table = "Element ''table'' [(''id'', ''ctl00_Content_Main_grdSearch'')] [?plain, ?linked]"
  let ?soup = "Element ''[document]'' [] [?table]"
  have absent: "find_tag ''table'' [(''id'', ''ctl00_Content_Main_grdSearch'')]
      (Element ''[document]'' [] []) = None"
    by (simp add: find_tag_def find_all_def)
  have fetched: "sample_fetch (search_results_page_url Jurassic_Coast 648) = Inr (search_page [])"
    by (simp add: search_urls sample_fetch_def)
  have no_rows: "find_tag ''table'' [(''id'', ''ctl00_Content_Main_grdSearch'')] (search_page [])
      = Some (Element ''table'' [(''id'', ''ctl00_Content_Main_grdSearch'')]
                [Element ''tr'' [] [Element ''th'' [] [NavigableString ''Name'']]])"
    "find_all ''a'' [] (Element ''table'' [(''id'', ''ctl00_Content_Main_grdSearch'')]
                [Element ''tr'' [] [Element ''th'' [] [NavigableString ''Name'']]]) = []"
    by (simp_all add: search_page_def find_tag_def find_all_def)
  have present: "find_tag ''table'' [(''id'', ''ctl00_Content_Main_grdSearch'')] ?soup = Some ?table"
    "find_all ''a'' [] ?table = [?plain, ?linked]"
    "find_all_with ''a'' ''href'' ?table = [?linked]"
    by (simp_all add: find_tag_def find_all_def find_all_with_def)
  have msg: "str_int 648 = ''648''"
    by (simp add: str_int_def digits.simps digit_char_def)
  have failing: "locate (Element ''[document]'' [] []) = Inl AttributeError"
    using absent locate_takes_first_anchor[of "Element ''[document]'' [] []"] by blast
  have empty: "locate (search_page []) = Inl IndexError"
    using no_rows locate_takes_first_anchor[of "search_page []"] by blast
  have unified: "generate_person_from_race_nubmer sample_strptime sample_fetch Jurassic_Coast 648
       = Inl (RuntimeError ''Could not find relevant data for race_number 648.'')"
    using fetched empty msg
      locate_takes_first_anchor[of "search_page []" _ _ _ _ _ sample_fetch Jurassic_Coast 648
        IndexError sample_strptime]
    by simp
  have found: "locate ?soup = Inr (get_text ?plain, base_url @ ''Details.aspx?id=643'')"
    using present locate_takes_first_anchor[of ?soup ?table ?plain "[?linked]" ?linked "[]"]
    by simp
  show ?thesis
    using absent failing fetched empty unified present(2) found by simp
qed

text \<open>
  C9, as stated, fails for more than one match: a search page with two result rows is
  not rejected; the first row is taken and the extraction succeeds.
\<close>

theorem locate_ambiguous_counterexample:
  "locate (search_page [(''Alex Smith'', ''Details.aspx?id=643''),
                        (''Sam Jones'', ''Details.aspx?id=644'')])
     = Inr (''Alex Smith'', ''https://results.resultsbase.net/Details.aspx?id=643'')
   \<and> sample_fetch (search_results_page_url Jurassic_Coast 647)
       = Inr (search_page [(''Alex Smith'', ''Details.aspx?id=643''),
                          (''Sam Jones'', ''Details.aspx?id=644'')])
   \<and> generate_person_from_race_nubmer sample_strptime sample_fetch Jurassic_Coast 647
       = Inr (person_643\<lparr>race_number := PyInt 647\<rparr>)"
  by (simp add: locate_search_page base_url_def search_urls sample_fetch_def stub_site_results)

lemma read_rows_keeps_keys:
  "read_rows d rows = Inr d' \<Longrightarrow> k \<in> fst ` set d \<Longrightarrow> k \<in> fst ` set d'"
proof (induction rows arbitrary: d)
  case Nil
  then show ?case by simp
next
  case (Cons r rows)
  then obtain c v rest where cells: "take 2 (find_all ''td'' [] r) = c # v # rest"
    and run: "read_rows (AList.update (normalise_key (get_text c)) (PyStr (get_text v)) d) rows
        = Inr d'"
    by (auto split: list.splits)
  have "k \<in> fst ` set (AList.update (normalise_key (get_text c)) (PyStr (get_text v)) d)"
    using Cons.prems(2) by (simp add: dom_update)
  then show ?case
    by (rule Cons.IH[OF run])
qed

lemma read_rows_adds_labels:
  "read_rows d rows = Inr d' \<Longrightarrow> r \<in> set rows \<Longrightarrow> find_all ''td'' [] r = label # cells
     \<Longrightarrow> normalise_key (get_text label) \<in> fst ` set d'"
proof (induction rows arbitrary: d)
  case Nil
  then show ?case by simp
next
  case (Cons r0 rows)
  then obtain c v rest where cells: "take 2 (find_all ''td'' [] r0) = c # v # rest"
    and run: "read_rows (AList.update (normalise_key (get_text c)) (PyStr (get_text v)) d) rows
        = Inr d'"
    by (auto split: list.splits)
  show ?case
  proof (cases "r = r0")
    case True
    then have "c = label"
      using cells Cons.prems(3) by simp
    then have "normalise_key (get_text label)
        \<in> fst ` set (AList.update (normalise_key (get_text c)) (PyStr (get_text v)) d)"
      by (simp add: dom_update)
    then show ?thesis
      by (rule read_rows_keeps_keys[OF run])
  next
    case False
    then have "r \<in> set rows"
      using Cons.prems(2) by simp
    then show ?thesis
      using Cons.IH[OF run] Cons.prems(3) by blast
  qed
qed

lemma Person_call_unknown_key:
  assumes "k \<in> fst ` set kwargs" "k \<notin> set Person_params"
  shows "Person_call strptime kwargs = Inl TypeError"
proof -
  have "\<not> list_all (\<lambda>k. k \<in> set Person_params) (map fst kwargs)"
    using assms by (auto simp: list_all_iff)
  then show ?thesis
    by (simp add: Person_call_def)
qed

text \<open>
  C10. When the timing table of the detail page has a data row whose normalised label is
  no parameter of \<^verbatim>\<open>Person.__init__\<close>, the extraction fails with the one error that
  names the race number, whatever the other rows hold: the label reaches the constructor
  as a keyword argument.
\<close>

theorem unknown_label_fails:
  assumes "fetch (search_results_page_url loc rn) = Inr search_soup"
    and "locate search_soup = Inr (person_name, stats_page_url)"
    and "fetch stats_page_url = Inr stats_soup"
    and "find_tag ''div'' [(''id'', ''ctl00_Content_Main_divSplitGrid'')] stats_soup = Some result"
    and "find_tag ''table'' [] result = Some table"
    and "r \<in> set (tl (find_all ''tr'' [] table))"
    and "find_all ''td'' [] r = label # cells"
    and "normalise_key (get_text label) \<notin> set Person_params"
  shows "generate_person_from_race_nubmer strptime fetch loc rn =
    Inl (RuntimeError (''Could not find relevant data for race_number '' @ str_int rn @ ''.''))"
proof -
  let ?rows = "tl (find_all ''tr'' [] table)"
  let ?init = "[(''name'', PyStr person_name), (''race_number'', PyInt rn)]"
  have parse: "parse_timings person_name rn stats_soup = read_rows ?init ?rows"
    using assms(4,5) by (simp add: parse_timings_def)
  have body: "try_body strptime fetch loc rn =
      bind_exc (read_rows ?init ?rows) (Person_call strptime)"
    using assms(1,2,3) parse by (simp add: try_body_def bind_exc_def)
  have "\<exists>e. try_body strptime fetch loc rn = Inl e"
  proof (cases "read_rows ?init ?rows")
    case (Inl e)
    then show ?thesis
      by (simp add: body bind_exc_def)
  next
    case (Inr data_dict)
    have "normalise_key (get_text label) \<in> fst ` set data_dict"
      using read_rows_adds_labels[OF Inr assms(6,7)] .
    then have "Person_call strptime data_dict = Inl TypeError"
      using assms(8) by (rule Person_call_unknown_key)
    then show ?thesis
      by (simp add: body Inr bind_exc_def)
  qed
  then show ?thesis
    using generate_person_fails by blast
qed


theorem unknown_label_fails_witness:
  "sample_fetch (search_results_page_url Jurassic_Coast 646)
     = Inr (search_page [(''Alex Smith'', ''Details.aspx?id=646'')])
   \<and> sample_fetch (base_url @ ''Details.aspx?id=646'')
       = Inr (detail_page (timings_643 @ [(''Gun Time'', ''05:30:00'')]))
   \<and> normalise_key ''Gun Time'' = ''gun_time'' \<and> ''gun_time'' \<notin> set Person_params
   \<and> generate_person_from_race_nubmer sample_strptime sample_fetch Jurassic_Coast 646
       = Inl (RuntimeError ''Could not find relevant data for race_number 646.'')
   \<and> generate_person_from_race_nubmer sample_strptime sample_fetch Jurassic_Coast 643
       = Inr person_643"
proof -
  let ?row = "\<lambda>k v. Element ''tr'' []
      [Element ''td'' [] [NavigableString k], Element ''td'' [] [NavigableString v]]"
  let ?table = "Element ''table'' []
      [Element ''tr'' [] [Element ''th'' [] [NavigableString ''Split''],
                          Element ''th'' [] [NavigableString ''Time'']],
       ?row ''Start'' ''08:00:00'', ?row ''Pitstop 1'' ''09:15:30'',
       ?row ''Pitstop 2'' ''10:40:00'', ?row ''Pitstop 3'' ''12:05:10'',
       ?row ''Finish'' ''13:30:00'', ?row ''Gun Time'' ''05:30:00'']"
  let ?div = "Element ''div'' [(''id'', ''ctl00_Content_Main_divSplitGrid'')] [?table]"
  let ?page = "detail_page (timings_643 @ [(''Gun Time'', ''05:30:00'')])"
  have h1: "sample_fetch (search_results_page_url Jurassic_Coast 646)
      = Inr (search_page [(''Alex Smith'', ''Details.aspx?id=646'')])"
    by (simp add: search_urls sample_fetch_def)
  have h2: "locate (search_page [(''Alex Smith'', ''Details.aspx?id=646'')])
      = Inr (''Alex Smith'', base_url @ ''Details.aspx?id=646'')"
    by (rule locate_search_page)
  have h3: "sample_fetch (base_url @ ''Details.aspx?id=646'') = Inr ?page"
    by (simp add: base_url_def sample_fetch_def)
  have h4: "find_tag ''div'' [(''id'', ''ctl00_Content_Main_divSplitGrid'')] ?page = Some ?div"
    by (simp add: detail_page_def timings_643_def find_tag_def find_all_def)
  have h5: "find_tag ''table'' [] ?div = Some ?table"
    by (simp add: find_tag_def find_all_def)
  have h6: "?row ''Gun Time'' ''05:30:00'' \<in> set (tl (find_all ''tr'' [] ?table))"
    by (simp add: find_all_def)
  have h7: "find_all ''td'' [] (?row ''Gun Time'' ''05:30:00'')
      = Element ''td'' [] [NavigableString ''Gun Time'']
        # [Element ''td'' [] [NavigableString ''05:30:00'']]"
    by (simp add: find_all_def)
  have key: "normalise_key ''Gun Time'' = ''gun_time''"
    by (rule normalise_key_labels)
  have h8: "normalise_key (get_text (Element ''td'' [] [NavigableString ''Gun Time'']))
      \<notin> set Person_params"
    by (simp add: key Person_params_def)
  have msg: "str_int 646 = ''646''"
    by (simp add: str_int_def digits.simps digit_char_def)
  have "generate_person_from_race_nubmer sample_strptime sample_fetch Jurassic_Coast 646
       = Inl (RuntimeError ''Could not find relevant data for race_number 646.'')"
    using unknown_label_fails[OF h1 h2 h3 h4 h5 h6 h7 h8, of sample_strptime] msg by simp
  moreover have "''gun_time'' \<notin> set Person_params"
    by (simp add: Person_params_def)
  ultimately show ?thesis
    using h1 h3 key stub_site_results(1) by simp
qed

section \<open>Claims about the batch resolver\<close>

lemma people_loop_all_ok:
  "map (generate_person_from_race_nubmer strptime fetch loc) ns = map Inr ps
     \<Longrightarrow> people_loop strptime fetch loc acc ns = Inr (acc @ ps)"
proof (induction ns arbitrary: acc ps)
  case Nil
  then show ?case by simp
next
  case (Cons n ns)
  then obtain p qs where ps: "ps = p # qs"
    and p: "generate_person_from_race_nubmer strptime fetch loc n = Inr p"
    and qs: "map (generate_person_from_race_nubmer strptime fetch loc) ns = map Inr qs"
    by (cases ps) auto
  show ?case
    using Cons.IH[OF qs, of "acc @ [p]"] by (simp add: p ps)
qed

lemma people_loop_first_failure:
  assumes "generate_person_from_race_nubmer strptime fetch loc n = Inl e"
  shows "\<forall>m\<in>set xs. \<exists>p. generate_person_from_race_nubmer strptime fetch loc m = Inr p
     \<Longrightarrow> people_loop strptime fetch loc acc (xs @ n # ys) = Inl e"
proof (induction xs arbitrary: acc)
  case Nil
  show ?case by (simp add: assms)
next
  case (Cons x xs)
  then obtain p where p: "generate_person_from_race_nubmer strptime fetch loc x = Inr p"
    by auto
  have "\<forall>m\<in>set xs. \<exists>p. generate_person_from_race_nubmer strptime fetch loc m = Inr p"
    using Cons.prems by simp
  from Cons.IH[OF this, of "acc @ [p]"] show ?case
    by (simp add: p)
qed

lemma people_loop_success:
  "people_loop strptime fetch loc acc ns = Inr r
     \<Longrightarrow> \<forall>n\<in>set ns. \<exists>p. generate_person_from_race_nubmer strptime fetch loc n = Inr p"
proof (induction ns arbitrary: acc)
  case Nil
  show ?case by simp
next
  case (Cons n ns)
  then obtain p where p: "generate_person_from_race_nubmer strptime fetch loc n = Inr p"
    and run: "people_loop strptime fetch loc (acc @ [p]) ns = Inr r"
    by (auto split: sum.splits)
  show ?case
    using p Cons.IH[OF run] by simp
qed

lemma all_ok_as_list:
  assumes "\<forall>n\<in>set ns. \<exists>p. f n = Inr p"
  shows "\<exists>ps. map f ns = map Inr ps"
  using assms
proof (induction ns)
  case Nil
  show ?case by simp
next
  case (Cons n ns)
  then obtain p ps where "f n = Inr p" "map f ns = map Inr ps"
    by auto
  then have "map f (n # ns) = map Inr (p # ps)"
    by simp
  then show ?case
    by blast
qed

text \<open>
  C5. The batch resolver returns a registry exactly when the extraction succeeds for
  every race number, and the registry is then built from the extracted participants in
  the order of the race numbers. Otherwise the result is the failure of the first race
  number whose extraction fails, the \<open>RuntimeError\<close> that names it, whatever race
  numbers follow.
\<close>

theorem batch_fails_fast:
  "((\<exists>registry. generate_people_from_race_nubmers strptime fetch loc ns = Inr registry)
      \<longleftrightarrow> (\<forall>n\<in>set ns. \<exists>p. generate_person_from_race_nubmer strptime fetch loc n = Inr p))
   \<and> (map (generate_person_from_race_nubmer strptime fetch loc) ns = map Inr ps \<longrightarrow>
        generate_people_from_race_nubmers strptime fetch loc ns = Inr (People_init ps))
   \<and> (ns = xs @ n # ys
        \<and> (\<forall>m\<in>set xs. \<exists>p. generate_person_from_race_nubmer strptime fetch loc m = Inr p)
        \<and> generate_person_from_race_nubmer strptime fetch loc n = Inl e \<longrightarrow>
        generate_people_from_race_nubmers strptime fetch loc ns = Inl e
        \<and> e = RuntimeError (''Could not find relevant data for race_number '' @ str_int n @ ''.''))"
proof (intro conjI impI iffI)
  assume "\<exists>registry. generate_people_from_race_nubmers strptime fetch loc ns = Inr registry"
  then obtain r where "people_loop strptime fetch loc [] ns = Inr r"
    by (auto simp: generate_people_from_race_nubmers_def split: sum.splits)
  then show "\<forall>n\<in>set ns. \<exists>p. generate_person_from_race_nubmer strptime fetch loc n = Inr p"
    by (rule people_loop_success)
next
  assume "\<forall>n\<in>set ns. \<exists>p. generate_person_from_race_nubmer strptime fetch loc n = Inr p"
  then obtain qs where "map (generate_person_from_race_nubmer strptime fetch loc) ns = map Inr qs"
    using all_ok_as_list by blast
  then have "people_loop strptime fetch loc [] ns = Inr ([] @ qs)"
    by (rule people_loop_all_ok)
  then show "\<exists>registry. generate_people_from_race_nubmers strptime fetch loc ns = Inr registry"
    by (simp add: generate_people_from_race_nubmers_def)
next
  assume "map (generate_person_from_race_nubmer strptime fetch loc) ns = map Inr ps"
  then have "people_loop strptime fetch loc [] ns = Inr ([] @ ps)"
    by (rule people_loop_all_ok)
  then show "generate_people_from_race_nubmers strptime fetch loc ns = Inr (People_init ps)"
    by (simp add: generate_people_from_race_nubmers_def)
next
  assume a: "ns = xs @ n # ys
      \<and> (\<forall>m\<in>set xs. \<exists>p. generate_person_from_race_nubmer strptime fetch loc m = Inr p)
      \<and> generate_person_from_race_nubmer strptime fetch loc n = Inl e"
  then have "people_loop strptime fetch loc [] (xs @ n # ys) = Inl e"
    using people_loop_first_failure by blast
  then show "generate_people_from_race_nubmers strptime fetch loc ns = Inl e"
    using a by (simp add: generate_people_from_race_nubmers_def)
next
  assume "ns = xs @ n # ys
      \<and> (\<forall>m\<in>set xs. \<exists>p. generate_person_from_race_nubmer strptime fetch loc m = Inr p)
      \<and> generate_person_from_race_nubmer strptime fetch loc n = Inl e"
  then show "e = RuntimeError (''Could not find relevant data for race_number '' @ str_int n @ ''.'')"
    using generate_person_error by blast
qed

theorem batch_fails_fast_witness:
  "generate_people_from_race_nubmers sample_strptime sample_fetch Jurassic_Coast [643, 644]
     = Inr (People_init [person_643, person_644])
   \<and> people (People_init [person_643, person_644]) = [person_644, person_643]
   \<and> generate_person_from_race_nubmer sample_strptime sample_fetch Jurassic_Coast 645
       = Inl (RuntimeError ''Could not find relevant data for race_number 645.'')
   \<and> generate_people_from_race_nubmers sample_strptime sample_fetch Jurassic_Coast [643, 645, 644]
       = Inl (RuntimeError ''Could not find relevant data for race_number 645.'')"
proof -
  have ok: "map (generate_person_from_race_nubmer sample_strptime sample_fetch Jurassic_Coast)
      [643, 644] = map Inr [person_643, person_644]"
    by (simp add: stub_site_results)
  have good: "generate_people_from_race_nubmers sample_strptime sample_fetch Jurassic_Coast
      [643, 644] = Inr (People_init [person_643, person_644])"
    using ok batch_fails_fast[of sample_strptime sample_fetch Jurassic_Coast "[643, 644]"
        "[person_643, person_644]"]
    by blast
  have split: "[643, 645, 644] = [643] @ 645 # [644::int]"
    by simp
  have before: "\<forall>m\<in>set [643]. \<exists>p.
      generate_person_from_race_nubmer sample_strptime sample_fetch Jurassic_Coast m = Inr p"
    by (simp add: stub_site_results)
  have bad: "generate_people_from_race_nubmers sample_strptime sample_fetch Jurassic_Coast
      [643, 645, 644] = Inl (RuntimeError ''Could not find relevant data for race_number 645.'')"
    using split before stub_site_results(3)
      batch_fails_fast[of sample_strptime sample_fetch Jurassic_Coast "[643, 645, 644]" _
        "[643]" 645 "[644]" "RuntimeError ''Could not find relevant data for race_number 645.''"]
    by blast
  have order: "people (People_init [person_643, person_644]) = [person_644, person_643]"
    by (simp add: people_People_init person_643_def person_644_def hms_def total_time_def
        datetime_sub_def timedelta_new_def secs_def)
  show ?thesis
    using good order stub_site_results(3) bad by simp
qed


end
